theory Spec2Isabelle
  imports Main "HOL-Library.Sublist"
begin

section \<open>JavaScript values\<close>

text \<open>
  The middleware handles values of TypeScript type \<open>any\<close>: decoded JSON bodies, tool
  arguments, handler results. They are modelled by the JSON fragment of JavaScript values.
  An object carries its own enumerable properties in the order \<open>Object.keys\<close> lists
  them.

  A string is a sequence of UTF-16 code units; a \<open>char\<close> is one code unit, so the strings
  of the model are those whose code units are below 256.

  The program never calculates with a number: it prints it, tests it for truth and
  compares it with strings. A number is therefore carried as the text that
  \<open>Number.prototype.toString\<close> gives for it (\<open>42\<close>, \<open>-1.5\<close>, \<open>1e+21\<close>, \<open>NaN\<close>), which
  identifies the number, the sign of zero apart.
\<close>

datatype jsval =
    JUndefined
  | JNull
  | JBool bool
  | JNum string
  | JStr string
  | JArr "jsval list"
  | JObj "(string \<times> jsval) list"

text \<open>
  A thrown value is either an \<open>Error\<close> object (of any subclass) with its message, or an
  arbitrary value (\<open>throw v\<close>). A computation that may throw returns a sum with the
  exception on the left.
\<close>

datatype js_exn = JsError string | JsThrown jsval

type_synonym 'a completion = "js_exn + 'a"

fun truthy :: "jsval \<Rightarrow> bool" where
  "truthy JUndefined = False"
| "truthy JNull = False"
| "truthy (JBool b) = b"
| "truthy (JNum t) = (t \<noteq> ''0'' \<and> t \<noteq> ''NaN'')"
| "truthy (JStr s) = (s \<noteq> [])"
| "truthy (JArr vs) = True"
| "truthy (JObj kvs) = True"

definition nullish :: "jsval \<Rightarrow> bool" where
  "nullish v = (v = JUndefined \<or> v = JNull)"

fun show_nat :: "nat \<Rightarrow> string" where
  "show_nat n =
     (if n < 10 then [''0123456789'' ! n]
      else show_nat (n div 10) @ [''0123456789'' ! (n mod 10)])"

declare show_nat.simps [simp del]

text \<open>
  \<open>String(v)\<close>, which is also what a template literal \<open>`${v}`\<close> inserts and what a
  property key \<open>o[v]\<close> is converted with. For an object it calls \<open>toString\<close>: the one of
  \<open>Object.prototype\<close> gives \<open>[object Object]\<close>, but an own property \<open>toString\<close> of a JSON
  object hides it and is not callable, and then the conversion throws a \<open>TypeError\<close>
  (\<open>valueOf\<close> returns the object itself and does not help). An array joins the
  conversions of its elements, \<open>undefined\<close> and \<open>null\<close> giving the empty text.
\<close>

fun js_String :: "jsval \<Rightarrow> string completion"
  and js_join_elems :: "jsval list \<Rightarrow> string completion" where
  "js_String JUndefined = Inr ''undefined''"
| "js_String JNull = Inr ''null''"
| "js_String (JBool b) = Inr (if b then ''true'' else ''false'')"
| "js_String (JNum t) = Inr t"
| "js_String (JStr s) = Inr s"
| "js_String (JArr vs) = js_join_elems vs"
| "js_String (JObj kvs) =
     (if ''toString'' \<in> fst ` set kvs
      then Inl (JsError ''Cannot convert object to primitive value'')
      else Inr ''[object Object]'')"
| "js_join_elems [] = Inr []"
| "js_join_elems [v] = (if v = JUndefined \<or> v = JNull then Inr [] else js_String v)"
| "js_join_elems (v # w # vs) =
     (case (if v = JUndefined \<or> v = JNull then Inr [] else js_String v) of
        Inl e \<Rightarrow> Inl e
      | Inr s \<Rightarrow>
          (case js_join_elems (w # vs) of
             Inl e \<Rightarrow> Inl e
           | Inr t \<Rightarrow> Inr (s @ '','' @ t)))"

text \<open>
  \<open>Object.entries(v)\<close>, which is also what the spread \<open>{...v}\<close> copies: the
  properties of an object, the elements of an array under their indices, the characters of
  a string under theirs, and nothing for the other values.
\<close>

fun js_entries :: "jsval \<Rightarrow> (string \<times> jsval) list" where
  "js_entries (JObj kvs) = kvs"
| "js_entries (JArr vs) = zip (map show_nat [0..<length vs]) vs"
| "js_entries (JStr s) = zip (map show_nat [0..<length s]) (map (\<lambda>c. JStr [c]) s)"
| "js_entries v = []"

definition js_keys :: "jsval \<Rightarrow> string list" where
  "js_keys v = map fst (js_entries v)"

definition own_prop :: "(string \<times> jsval) list \<Rightarrow> string \<Rightarrow> jsval" where
  "own_prop kvs k = (case map_of kvs k of None \<Rightarrow> JUndefined | Some v \<Rightarrow> v)"

text \<open>
  Property read \<open>v[k]\<close> for a key that no prototype defines: a \<open>TypeError\<close> on
  \<open>undefined\<close> and \<open>null\<close> (its message is the engine's; the text here stands for it),
  else the own property, with \<open>length\<close> for arrays and strings. The program reads the
  keys \<open>method\<close>, \<open>id\<close>, \<open>params\<close>, \<open>name\<close>, \<open>arguments\<close>, \<open>uri\<close> and \<open>message\<close>
  so, and the keys that \<open>Object.keys\<close> has listed.
\<close>

fun js_get :: "jsval \<Rightarrow> string \<Rightarrow> jsval completion" where
  "js_get JUndefined k =
     Inl (JsError (''Cannot read properties of undefined (reading '' @ k @ '')''))"
| "js_get JNull k =
     Inl (JsError (''Cannot read properties of null (reading '' @ k @ '')''))"
| "js_get (JArr vs) k =
     Inr (if k = ''length'' then JNum (show_nat (length vs))
          else own_prop (js_entries (JArr vs)) k)"
| "js_get (JStr s) k =
     Inr (if k = ''length'' then JNum (show_nat (length s))
          else own_prop (js_entries (JStr s)) k)"
| "js_get v k = Inr (own_prop (js_entries v) k)"

text \<open>\<open>a || b\<close>\<close>

definition js_or :: "jsval \<Rightarrow> jsval \<Rightarrow> jsval" where
  "js_or a b = (if truthy a then a else b)"

text \<open>\<open>xs.join(sep)\<close> on an array of strings.\<close>

fun js_join :: "string \<Rightarrow> string list \<Rightarrow> string" where
  "js_join sep [] = []"
| "js_join sep [x] = x"
| "js_join sep (x # y # ys) = x @ sep @ js_join sep (y # ys)"

section \<open>Strings\<close>

text \<open>\<open>s.indexOf(pat)\<close>, \<open>s.includes(pat)\<close> and \<open>s.startsWith(pat)\<close>.\<close>

fun index_of :: "string \<Rightarrow> string \<Rightarrow> nat option" where
  "index_of pat [] = (if pat = [] then Some 0 else None)"
| "index_of pat (c # cs) =
     (if prefix pat (c # cs) then Some 0 else map_option Suc (index_of pat cs))"

definition js_includes :: "string \<Rightarrow> string \<Rightarrow> bool" where
  "js_includes s pat = (index_of pat s \<noteq> None)"

definition js_startsWith :: "string \<Rightarrow> string \<Rightarrow> bool" where
  "js_startsWith s pat = prefix pat s"

text \<open>
  \<open>s.replace(pat, repl)\<close> with a string pattern replaces the first occurrence only, and
  expands in the replacement text the patterns \<open>$$\<close>, \<open>$&\<close>, \<open>$`\<close> and \<open>$'\<close>
  (there are no capture groups, so \<open>$1\<close> stays as it is).
\<close>

fun get_substitution :: "string \<Rightarrow> string \<Rightarrow> string \<Rightarrow> string \<Rightarrow> string" where
  "get_substitution matched preceding following (c # d # rest) =
     (if c = CHR ''$'' \<and> d = CHR ''$'' then CHR ''$'' # get_substitution matched preceding following rest
      else if c = CHR ''$'' \<and> d = CHR ''&'' then matched @ get_substitution matched preceding following rest
      else if c = CHR ''$'' \<and> d = CHR 0x60 then preceding @ get_substitution matched preceding following rest
      else if c = CHR ''$'' \<and> d = CHR 0x27 then following @ get_substitution matched preceding following rest
      else c # get_substitution matched preceding following (d # rest))"
| "get_substitution matched preceding following rest = rest"

definition js_replace :: "string \<Rightarrow> string \<Rightarrow> string \<Rightarrow> string" where
  "js_replace s pat repl =
     (case index_of pat s of
        None \<Rightarrow> s
      | Some i \<Rightarrow>
          take i s
          @ get_substitution pat (take i s) (drop (i + length pat) s) repl
          @ drop (i + length pat) s)"

text \<open>The regular expression class \<open>\w\<close>.\<close>

definition word_char :: "char \<Rightarrow> bool" where
  "word_char c =
     (c \<in> set ''abcdefghijklmnopqrstuvwxyzABCDEFGHIJKLMNOPQRSTUVWXYZ0123456789_'')"

text \<open>
  The loop \<open>while ((match = /:(\w+)/g.exec(path)) !== null)\<close> visits the matches from
  left to right, each search starting where the last match ended; \<open>path_params\<close> lists
  \<open>match[1]\<close> of each.
\<close>

function path_params :: "string \<Rightarrow> string list" where
  "path_params [] = []"
| "path_params (c # cs) =
     (if c = CHR '':'' \<and> takeWhile word_char cs \<noteq> []
      then takeWhile word_char cs # path_params (dropWhile word_char cs)
      else path_params cs)"
  by pat_completeness auto
termination
  by (relation "measure length") (auto simp: length_dropWhile_le less_Suc_eq_le)

text \<open>
  \<open>URLSearchParams.toString()\<close>: the application/x-www-form-urlencoded serialisation.
  It encodes the bytes of the UTF-8 form of the text; a code unit from 128 to 255 has
  two bytes there.
\<close>

definition hex_digit :: "nat \<Rightarrow> char" where
  "hex_digit n = ''0123456789ABCDEF'' ! n"

definition percent_byte :: "nat \<Rightarrow> string" where
  "percent_byte b = [CHR ''%'', hex_digit (b div 16), hex_digit (b mod 16)]"

definition urlencode_char :: "char \<Rightarrow> string" where
  "urlencode_char c =
     (if c = CHR '' '' then ''+''
      else if word_char c \<or> c = CHR ''*'' \<or> c = CHR ''-'' \<or> c = CHR ''.'' then [c]
      else if (of_char c :: nat) < 128 then percent_byte (of_char c)
      else percent_byte (192 + of_char c div 64) @ percent_byte (128 + of_char c mod 64))"

definition urlencode :: "string \<Rightarrow> string" where
  "urlencode s = concat (map urlencode_char s)"

definition URLSearchParams_toString :: "(string \<times> string) list \<Rightarrow> string" where
  "URLSearchParams_toString ps =
     js_join ''&'' (map (\<lambda>(k, v). urlencode k @ ''='' @ urlencode v) ps)"

section \<open>JSON.stringify\<close>

definition lower_hex_digit :: "nat \<Rightarrow> char" where
  "lower_hex_digit n = ''0123456789abcdef'' ! n"

definition json_quote_char :: "char \<Rightarrow> string" where
  "json_quote_char c =
     (if c = CHR 0x22 then [CHR 0x5C, CHR 0x22]
      else if c = CHR 0x5C then [CHR 0x5C, CHR 0x5C]
      else if c = CHR 0x08 then [CHR 0x5C, CHR ''b'']
      else if c = CHR 0x0C then [CHR 0x5C, CHR ''f'']
      else if c = CHR 0x0A then [CHR 0x5C, CHR ''n'']
      else if c = CHR 0x0D then [CHR 0x5C, CHR ''r'']
      else if c = CHR 0x09 then [CHR 0x5C, CHR ''t'']
      else if (of_char c :: nat) < 32
        then [CHR 0x5C, CHR ''u'', CHR ''0'', CHR ''0'',
              lower_hex_digit (of_char c div 16), lower_hex_digit (of_char c mod 16)]
      else [c])"

definition json_quote :: "string \<Rightarrow> string" where
  "json_quote s = [CHR 0x22] @ concat (map json_quote_char s) @ [CHR 0x22]"

text \<open>
  \<open>json_value gap indent v\<close> serialises a value that is not \<open>undefined\<close>; \<open>gap\<close> is
  the indentation unit (empty for the compact form) and \<open>indent\<close> the current
  indentation. An array element that is \<open>undefined\<close> is written \<open>null\<close>, an object
  property that is \<open>undefined\<close> is left out, and a number that is not finite is written
  \<open>null\<close>.
\<close>

definition json_wrap :: "string \<Rightarrow> string \<Rightarrow> string \<Rightarrow> string \<Rightarrow> string list \<Rightarrow> string" where
  "json_wrap gap indent opening closing parts =
     (if parts = [] then opening @ closing
      else if gap = [] then opening @ js_join '','' parts @ closing
      else opening @ [CHR 0x0A] @ indent @ gap
           @ js_join ('','' @ [CHR 0x0A] @ indent @ gap) parts
           @ [CHR 0x0A] @ indent @ closing)"

fun json_value :: "string \<Rightarrow> string \<Rightarrow> jsval \<Rightarrow> string"
  and json_elems :: "string \<Rightarrow> string \<Rightarrow> jsval list \<Rightarrow> string list"
  and json_props :: "string \<Rightarrow> string \<Rightarrow> (string \<times> jsval) list \<Rightarrow> string list" where
  "json_value gap indent JUndefined = []"
| "json_value gap indent JNull = ''null''"
| "json_value gap indent (JBool b) = (if b then ''true'' else ''false'')"
| "json_value gap indent (JNum t) =
     (if t = ''NaN'' \<or> t = ''Infinity'' \<or> t = ''-Infinity'' then ''null'' else t)"
| "json_value gap indent (JStr s) = json_quote s"
| "json_value gap indent (JArr vs) =
     json_wrap gap indent ''['' '']'' (json_elems gap (indent @ gap) vs)"
| "json_value gap indent (JObj kvs) =
     json_wrap gap indent ''{'' ''}'' (json_props gap (indent @ gap) kvs)"
| "json_elems gap indent [] = []"
| "json_elems gap indent (v # vs) =
     (if v = JUndefined then ''null'' else json_value gap indent v) # json_elems gap indent vs"
| "json_props gap indent [] = []"
| "json_props gap indent ((k, v) # kvs) =
     (if v = JUndefined then json_props gap indent kvs
      else (json_quote k @ '':'' @ (if gap = [] then [] else '' '') @ json_value gap indent v)
           # json_props gap indent kvs)"

text \<open>
  \<open>JSON.stringify(v, null, n)\<close>: \<open>undefined\<close> (here \<open>None\<close>) for \<open>undefined\<close>, else
  the text.
\<close>

definition JSON_stringify :: "nat \<Rightarrow> jsval \<Rightarrow> string option" where
  "JSON_stringify n v =
     (if v = JUndefined then None else Some (json_value (replicate n CHR '' '') [] v))"

section \<open>Types of the library (types.ts)\<close>

record MCPTool =
  name :: string
  description :: string
  inputSchema :: jsval

record Request =
  headers :: "string \<rightharpoonup> string"
  req_path :: string
  req_method :: string
  body :: jsval

record RouteDefinition =
  path :: string
  "method" :: string
  tool :: MCPTool
  handler :: "(jsval \<Rightarrow> Request \<Rightarrow> jsval completion) option"

text \<open>
  An object used as a table of handlers, as the property read \<open>table[key]\<close> followed by
  \<open>if (handler)\<close> and the call \<open>handler(params)\<close> see it. A property is a function, a
  truthy value that cannot be called, or a falsy value. The read finds an own property
  first and otherwise one that the object inherits: for an object literal these are the
  members of \<open>Object.prototype\<close> (\<open>constructor\<close>, \<open>toString\<close>, \<open>valueOf\<close>, ...), whose
  behaviour the model leaves open.
\<close>

datatype member =
    Callable "jsval \<Rightarrow> jsval completion"
  | NotCallable
  | Falsy

record handler_table =
  own_members :: "string \<rightharpoonup> member"
  inherited_members :: "string \<rightharpoonup> member"

definition table_get :: "handler_table \<Rightarrow> string \<Rightarrow> member option" where
  "table_get t key =
     (case own_members t key of Some m \<Rightarrow> Some m | None \<Rightarrow> inherited_members t key)"

text \<open>
  \<open>MCPConfig\<close> is an object with optional fields. Its values are plain data, or, for
  \<open>resourceHandlers\<close> and \<open>promptHandlers\<close>, a table of handlers; \<open>undefined\<close> and
  \<open>null\<close> in these two fields are data.
\<close>

datatype cfg_value =
    CData jsval
  | CHandlers handler_table

type_synonym MCPConfig = "string \<rightharpoonup> cfg_value"

section \<open>The registry (class MCPRegistryImpl)\<close>

text \<open>
  \<open>routes\<close> is a JavaScript \<open>Map\<close>: it iterates in insertion order, and \<open>set\<close> on a key
  that is present replaces the value where it stands.
\<close>

record MCPRegistryImpl =
  routes :: "(string \<times> RouteDefinition) list"
  config :: MCPConfig

definition new_registry :: MCPRegistryImpl where
  "new_registry = \<lparr>routes = [], config = Map.empty\<rparr>"

fun map_set :: "'k \<Rightarrow> 'v \<Rightarrow> ('k \<times> 'v) list \<Rightarrow> ('k \<times> 'v) list" where
  "map_set k v [] = [(k, v)]"
| "map_set k v ((k', v') # rest) =
     (if k' = k then (k, v) # rest else (k', v') # map_set k v rest)"

definition map_values :: "('k \<times> 'v) list \<Rightarrow> 'v list" where
  "map_values m = map snd m"

definition configure :: "MCPRegistryImpl \<Rightarrow> MCPConfig \<Rightarrow> MCPRegistryImpl" where
  "configure r c = r\<lparr>config := config r ++ c\<rparr>"

definition route_key :: "RouteDefinition \<Rightarrow> string" where
  "route_key definition = method definition @ '':'' @ path definition"

definition register :: "MCPRegistryImpl \<Rightarrow> RouteDefinition \<Rightarrow> MCPRegistryImpl" where
  "register r definition = r\<lparr>routes := map_set (route_key definition) definition (routes r)\<rparr>"

definition getTools :: "MCPRegistryImpl \<Rightarrow> MCPTool list" where
  "getTools r = map tool (map_values (routes r))"

text \<open>
  \<open>getRoute\<close> compares with \<open>===\<close>; the dispatcher passes it \<open>params.name\<close>, which is
  any value, so the argument is a value and only a string can match.
\<close>

definition getRoute :: "MCPRegistryImpl \<Rightarrow> jsval \<Rightarrow> RouteDefinition option" where
  "getRoute r toolName =
     find (\<lambda>route. JStr (name (tool route)) = toolName) (map_values (routes r))"

definition getConfig :: "MCPRegistryImpl \<Rightarrow> MCPConfig" where
  "getConfig r = config r"

definition clear :: "MCPRegistryImpl \<Rightarrow> MCPRegistryImpl" where
  "clear r = r\<lparr>routes := []\<rparr>"

section \<open>The REST bridge (callRESTEndpoint)\<close>

record RequestInit =
  init_method :: string
  init_headers :: "(string \<times> string) list"
  init_body :: "string option"

text \<open>
  What the bridge reads of the response of \<open>fetch\<close>: \<open>ok\<close>, \<open>status\<close>, the
  \<open>content-type\<close> header, and the outcomes of \<open>text()\<close> and \<open>json()\<close>. The network is a
  parameter: a function from the request to the outcome of \<open>fetch\<close>.
\<close>

record FetchResponse =
  response_ok :: bool
  response_status :: nat
  response_content_type :: "string option"
  response_text :: "string completion"
  response_json :: "jsval completion"

type_synonym fetch = "string \<Rightarrow> RequestInit \<Rightarrow> FetchResponse completion"

fun js_typeof :: "jsval \<Rightarrow> string" where
  "js_typeof JUndefined = ''undefined''"
| "js_typeof JNull = ''object''"
| "js_typeof (JBool b) = ''boolean''"
| "js_typeof (JNum i) = ''number''"
| "js_typeof (JStr s) = ''string''"
| "js_typeof (JArr vs) = ''object''"
| "js_typeof (JObj kvs) = ''object''"

text \<open>\<open>h || d\<close> for a header or environment variable that may be absent.\<close>

definition str_or :: "string option \<Rightarrow> string \<Rightarrow> string" where
  "str_or h d = (case h of None \<Rightarrow> d | Some s \<Rightarrow> if s = [] then d else s)"

text \<open>\<open>PORT\<close> is \<open>process.env.PORT\<close>.\<close>

definition baseURL :: "string option \<Rightarrow> Request \<Rightarrow> string" where
  "baseURL PORT req =
     (let protocol = str_or (headers req ''x-forwarded-proto'') ''http'';
          host = str_or (headers req ''host'') (''localhost:'' @ str_or PORT ''3000'')
      in protocol @ ''://'' @ host)"

text \<open>
  Lines 364 to 370: replace path parameters. For every key that \<open>Object.keys\<close> lists,
  \<open>String(data[key])\<close> is computed, which can throw, and the first occurrence of the
  text \<open>:key\<close> in the working path is replaced.
\<close>

fun replace_parameters :: "jsval \<Rightarrow> string list \<Rightarrow> string \<Rightarrow> string completion" where
  "replace_parameters data [] finalPath = Inr finalPath"
| "replace_parameters data (key # keys) finalPath =
     (case js_String (own_prop (js_entries data) key) of
        Inl e \<Rightarrow> Inl e
      | Inr v \<Rightarrow> replace_parameters data keys (js_replace finalPath ('':'' @ key) v))"

definition finalPath :: "string \<Rightarrow> jsval \<Rightarrow> string completion" where
  "finalPath pth data =
     (if truthy data \<and> js_typeof data = ''object''
      then replace_parameters data (js_keys data) pth
      else Inr pth)"

definition js_delete :: "(string \<times> jsval) list \<Rightarrow> string \<Rightarrow> (string \<times> jsval) list" where
  "js_delete obj k = filter (\<lambda>(k', v). k' \<noteq> k) obj"

text \<open>Lines 386 to 394: the body data, path parameters filtered out.\<close>

definition bodyData :: "string \<Rightarrow> jsval \<Rightarrow> (string \<times> jsval) list" where
  "bodyData pth data = foldl js_delete (js_entries data) (path_params pth)"

text \<open>Lines 398 to 404: the query parameters, appended entry by entry.\<close>

fun append_entries :: "string \<Rightarrow> (string \<times> jsval) list \<Rightarrow> (string \<times> string) list completion" where
  "append_entries pth [] = Inr []"
| "append_entries pth ((key, value) # entries) =
     (if value \<noteq> JUndefined \<and> value \<noteq> JNull \<and> \<not> js_includes pth ('':'' @ key)
      then (case js_String value of
              Inl e \<Rightarrow> Inl e
            | Inr v \<Rightarrow>
                (case append_entries pth entries of
                   Inl e \<Rightarrow> Inl e
                 | Inr ps \<Rightarrow> Inr ((key, v) # ps)))
      else append_entries pth entries)"

definition queryParams :: "string \<Rightarrow> jsval \<Rightarrow> (string \<times> string) list completion" where
  "queryParams pth data = append_entries pth (js_entries data)"

definition request_headers :: "Request \<Rightarrow> (string \<times> string) list" where
  "request_headers req =
     [(''Content-Type'', ''application/json''), (''User-Agent'', ''MCP-Client/1.0'')]
     @ (case headers req ''authorization'' of
          None \<Rightarrow> []
        | Some a \<Rightarrow> if a = [] then [] else [(''Authorization'', a)])"

text \<open>
  The arguments of \<open>fetch(url, options)\<close> at line 410, or the exception that lines 364
  to 408 throw before they reach it.
\<close>

definition fetch_arguments ::
  "string option \<Rightarrow> Request \<Rightarrow> RouteDefinition \<Rightarrow> jsval \<Rightarrow> (string \<times> RequestInit) completion"
  where
  "fetch_arguments PORT req routeDefinition data =
     (case finalPath (path routeDefinition) data of
        Inl e \<Rightarrow> Inl e
      | Inr substituted \<Rightarrow>
          (let url = baseURL PORT req @ substituted;
               options = \<lparr>init_method = method routeDefinition,
                          init_headers = request_headers req,
                          init_body = None\<rparr>
           in if method routeDefinition = ''POST'' \<or> method routeDefinition = ''PUT''
                 \<or> method routeDefinition = ''PATCH''
              then Inr (url, options\<lparr>init_body :=
                      JSON_stringify 0 (JObj (bodyData (path routeDefinition) data))\<rparr>)
              else if method routeDefinition = ''GET'' \<and> truthy data
              then (case queryParams (path routeDefinition) data of
                      Inl e \<Rightarrow> Inl e
                    | Inr ps \<Rightarrow>
                        (let queryString = URLSearchParams_toString ps
                         in if queryString \<noteq> []
                            then Inr (url @ (if js_includes url ''?'' then ''&'' else ''?'')
                                          @ queryString,
                                      options)
                            else Inr (url, options)))
              else Inr (url, options)))"

definition callRESTEndpoint ::
  "fetch \<Rightarrow> string option \<Rightarrow> Request \<Rightarrow> RouteDefinition \<Rightarrow> jsval \<Rightarrow> jsval completion" where
  "callRESTEndpoint net PORT req routeDefinition data =
     (case fetch_arguments PORT req routeDefinition data of
        Inl e \<Rightarrow> Inl e
      | Inr (url, options) \<Rightarrow>
          (case net url options of
             Inl e \<Rightarrow> Inl e
           | Inr response \<Rightarrow>
               if \<not> response_ok response
               then (case response_text response of
                       Inl e \<Rightarrow> Inl e
                     | Inr errorText \<Rightarrow>
                         Inl (JsError (''HTTP '' @ show_nat (response_status response)
                                       @ '': '' @ errorText)))
               else if js_includes (str_or (response_content_type response) [])
                         ''application/json''
               then response_json response
               else (case response_text response of
                       Inl e \<Rightarrow> Inl e
                     | Inr t \<Rightarrow> Inr (JStr t))))"

text \<open>The calls of \<open>fetch\<close> that \<open>callRESTEndpoint\<close> makes: one, or none where it throws first.\<close>

definition fetch_calls ::
  "string option \<Rightarrow> Request \<Rightarrow> RouteDefinition \<Rightarrow> jsval \<Rightarrow> (string \<times> RequestInit) list" where
  "fetch_calls PORT req routeDefinition data =
     (case fetch_arguments PORT req routeDefinition data of
        Inl e \<Rightarrow> []
      | Inr call \<Rightarrow> [call])"

section \<open>The dispatcher (createMCPMiddleware and the protocol handlers)\<close>

record MCPResponse =
  jsonrpc :: string
  response_id :: jsval
  result :: "jsval option"
  error :: "(int \<times> jsval) option"

datatype log_entry =
    ConsoleLog string "jsval list"
  | ConsoleError string js_exn

text \<open>
  What one call of the middleware does with the response object: \<open>next()\<close>,
  \<open>res.json(response)\<close>, \<open>res.status(code).end()\<close>, or none of these, when the promise
  of an async handler is rejected: the middleware returns the promise without awaiting
  it, so no code of the library sees the rejection.
\<close>

datatype effect =
    Next
  | Json MCPResponse
  | StatusEnd nat
  | Rejected js_exn

record outcome =
  sent :: effect
  fetched :: "(string \<times> RequestInit) list"
  console :: "log_entry list"

definition sendMCPError :: "jsval \<Rightarrow> int \<Rightarrow> jsval \<Rightarrow> effect" where
  "sendMCPError rid code message =
     Json \<lparr>jsonrpc = ''2.0'', response_id = rid, result = None, error = Some (code, message)\<rparr>"

definition send_result :: "jsval \<Rightarrow> jsval \<Rightarrow> effect" where
  "send_result rid r =
     Json \<lparr>jsonrpc = ''2.0'', response_id = rid, result = Some r, error = None\<rparr>"

text \<open>A property of the request object (\<open>request.id\<close>, \<open>request.params\<close>).\<close>

definition js_prop :: "jsval \<Rightarrow> string \<Rightarrow> jsval" where
  "js_prop v k = own_prop (js_entries v) k"

text \<open>\<open>typeof v === 'string' ? v : JSON.stringify(v, null, 2)\<close>\<close>

definition as_text :: "jsval \<Rightarrow> jsval" where
  "as_text v =
     (case v of
        JStr s \<Rightarrow> JStr s
      | _ \<Rightarrow> (case JSON_stringify 2 v of None \<Rightarrow> JUndefined | Some s \<Rightarrow> JStr s))"

text \<open>\<open>error.message\<close> in a catch block.\<close>

fun exn_message :: "js_exn \<Rightarrow> jsval completion" where
  "exn_message (JsError m) = Inr (JStr m)"
| "exn_message (JsThrown v) = js_get v ''message''"

text \<open>
  A field of the configuration read as data. The type \<open>MCPConfig\<close> gives the data fields
  (\<open>serverName\<close>, \<open>serverVersion\<close>, \<open>basePath\<close>, \<open>resources\<close>, \<open>prompts\<close>) no function
  values; an object of functions there would be serialised as an empty object.
\<close>

definition cfg_data :: "MCPConfig \<Rightarrow> string \<Rightarrow> jsval" where
  "cfg_data c k =
     (case c k of None \<Rightarrow> JUndefined | Some (CData v) \<Rightarrow> v | Some (CHandlers h) \<Rightarrow> JObj [])"

definition getResources :: "MCPRegistryImpl \<Rightarrow> jsval" where
  "getResources r = js_or (cfg_data (config r) ''resources'') (JArr [])"

definition getPrompts :: "MCPRegistryImpl \<Rightarrow> jsval" where
  "getPrompts r = js_or (cfg_data (config r) ''prompts'') (JArr [])"

text \<open>
  \<open>throw new Error(`No handler for resource: ${uri}`)\<close>: the template literal converts
  the key, and throws a \<open>TypeError\<close> itself where that fails.
\<close>

definition no_handler :: "string \<Rightarrow> jsval \<Rightarrow> jsval completion" where
  "no_handler what key =
     (case js_String key of
        Inl e \<Rightarrow> Inl e
      | Inr k \<Rightarrow> Inl (JsError (''No handler for '' @ what @ '': '' @ k)))"

text \<open>
  \<open>this.config.resourceHandlers?.[uri]\<close>, the test \<open>if (handler)\<close> and the call
  \<open>await handler(params)\<close>. Where the field is absent, \<open>undefined\<close> or \<open>null\<close> the key
  is not looked up. Where it is a table, the key is converted with \<open>String\<close> and read.
  Other data in the field is excluded by the type \<open>MCPConfig\<close>; the model reads its own
  properties, none of which can be called.
\<close>

definition call_handler ::
  "MCPConfig \<Rightarrow> string \<Rightarrow> string \<Rightarrow> jsval \<Rightarrow> jsval \<Rightarrow> jsval completion" where
  "call_handler c field what key arg =
     (case c field of
        Some (CHandlers t) \<Rightarrow>
          (case js_String key of
             Inl e \<Rightarrow> Inl e
           | Inr k \<Rightarrow>
               (case table_get t k of
                  Some (Callable h) \<Rightarrow> h arg
                | Some NotCallable \<Rightarrow> Inl (JsError ''handler is not a function'')
                | Some Falsy \<Rightarrow> no_handler what key
                | None \<Rightarrow> no_handler what key))
      | Some (CData v) \<Rightarrow>
          if nullish v then no_handler what key
          else (case js_String key of
                  Inl e \<Rightarrow> Inl e
                | Inr k \<Rightarrow>
                    (case js_get v k of
                       Inl e \<Rightarrow> Inl e
                     | Inr h \<Rightarrow>
                         if truthy h then Inl (JsError ''handler is not a function'')
                         else no_handler what key))
      | None \<Rightarrow> no_handler what key)"

definition MCPRegistryImpl_handleResourceRead ::
  "MCPRegistryImpl \<Rightarrow> jsval \<Rightarrow> jsval \<Rightarrow> jsval completion" where
  "MCPRegistryImpl_handleResourceRead r uri params =
     call_handler (config r) ''resourceHandlers'' ''resource'' uri
       (if params = JUndefined then JObj [] else params)"

definition MCPRegistryImpl_handlePromptGet ::
  "MCPRegistryImpl \<Rightarrow> jsval \<Rightarrow> jsval \<Rightarrow> jsval completion" where
  "MCPRegistryImpl_handlePromptGet r nm args =
     call_handler (config r) ''promptHandlers'' ''prompt'' nm
       (if args = JUndefined then JObj [] else args)"

definition quiet :: "effect \<Rightarrow> outcome" where
  "quiet e = \<lparr>sent = e, fetched = [], console = []\<rparr>"

definition tool_json :: "MCPTool \<Rightarrow> jsval" where
  "tool_json t =
     JObj [(''name'', JStr (name t)), (''description'', JStr (description t)),
           (''inputSchema'', inputSchema t)]"

text \<open>
  \<open>config.resources && config.resources.length > 0 ? {} : undefined\<close>, for the array
  that the type \<open>MCPConfig\<close> makes of the field.
\<close>

definition capability :: "jsval \<Rightarrow> jsval" where
  "capability v = (case v of JArr vs \<Rightarrow> if vs \<noteq> [] then JObj [] else JUndefined | _ \<Rightarrow> JUndefined)"

definition handleInitialize :: "MCPRegistryImpl \<Rightarrow> jsval \<Rightarrow> outcome" where
  "handleInitialize registry request =
     (let cfg = getConfig registry in
      quiet (send_result (js_prop request ''id'')
        (JObj [(''protocolVersion'', JStr ''2025-06-18''),
               (''capabilities'',
                  JObj [(''tools'', JObj []),
                        (''resources'', capability (cfg_data cfg ''resources'')),
                        (''prompts'', capability (cfg_data cfg ''prompts''))]),
               (''serverInfo'',
                  JObj [(''name'', js_or (cfg_data cfg ''serverName'') (JStr ''express-mcp-server'')),
                        (''version'', js_or (cfg_data cfg ''serverVersion'') (JStr ''1.0.0''))])])))"

definition handleToolsList :: "MCPRegistryImpl \<Rightarrow> jsval \<Rightarrow> outcome" where
  "handleToolsList registry request =
     quiet (send_result (js_prop request ''id'')
       (JObj [(''tools'', JArr (map tool_json (getTools registry)))]))"

definition handleResourcesList :: "MCPRegistryImpl \<Rightarrow> jsval \<Rightarrow> outcome" where
  "handleResourcesList registry request =
     quiet (send_result (js_prop request ''id'') (JObj [(''resources'', getResources registry)]))"

definition handlePromptsList :: "MCPRegistryImpl \<Rightarrow> jsval \<Rightarrow> outcome" where
  "handlePromptsList registry request =
     quiet (send_result (js_prop request ''id'') (JObj [(''prompts'', getPrompts registry)]))"

text \<open>
  The catch block of the three async handlers. It logs first, and the template literal
  of the log line converts \<open>subject\<close> (the tool name, the uri): where that throws, or
  where reading \<open>message\<close> of a thrown \<open>null\<close> or \<open>undefined\<close> throws, the exception
  leaves the catch block and rejects the handler's promise. Otherwise it answers
  \<open>-32603\<close> with \<open>error.message || fallback\<close>.
\<close>

definition catch_block ::
  "string \<Rightarrow> jsval \<Rightarrow> jsval \<Rightarrow> string \<Rightarrow> js_exn \<Rightarrow> (string \<times> RequestInit) list \<Rightarrow> outcome"
  where
  "catch_block logged subject rid fallback err calls =
     (case js_String subject of
        Inl e \<Rightarrow> \<lparr>sent = Rejected e, fetched = calls, console = []\<rparr>
      | Inr s \<Rightarrow>
          \<lparr>sent = (case exn_message err of
                     Inl e \<Rightarrow> Rejected e
                   | Inr m \<Rightarrow> sendMCPError rid (-32603) (js_or m (JStr fallback))),
           fetched = calls,
           console = [ConsoleError (logged @ s @ '':'') err]\<rparr>)"

text \<open>
  \<open>handleToolCall\<close>. The destructuring of \<open>request.params\<close> at line 216 stands before
  the \<open>try\<close>: on \<open>undefined\<close> or \<open>null\<close> it rejects the promise. The template literal
  of the message at line 224 stands inside it.
\<close>

definition handleToolCall ::
  "fetch \<Rightarrow> string option \<Rightarrow> MCPRegistryImpl \<Rightarrow> jsval \<Rightarrow> Request \<Rightarrow> outcome" where
  "handleToolCall net PORT registry request req =
     (let params = js_prop request ''params'' in
      case js_get params ''name'' of
        Inl e \<Rightarrow> quiet (Rejected e)
      | Inr nm \<Rightarrow>
          (let args = js_prop params ''arguments'' in
           case getRoute registry nm of
             None \<Rightarrow>
               (let availableTools = js_join '', '' (map name (getTools registry)) in
                case js_String nm of
                  Inl e \<Rightarrow>
                    catch_block ''Error calling tool '' nm
                      (js_prop request ''id'') ''Tool execution failed'' e []
                | Inr s \<Rightarrow>
                    quiet (sendMCPError (js_prop request ''id'') (-32602)
                      (JStr (''Unknown tool: '' @ s
                             @ ''. Available tools: '' @ availableTools))))
           | Some routeDefinition \<Rightarrow>
               (let (res, calls) =
                      (case handler routeDefinition of
                         Some h \<Rightarrow> (h args req, [])
                       | None \<Rightarrow>
                           (callRESTEndpoint net PORT req routeDefinition args,
                            fetch_calls PORT req routeDefinition args))
                in case res of
                     Inr r \<Rightarrow>
                       \<lparr>sent = send_result (js_prop request ''id'')
                                 (JObj [(''content'',
                                    JArr [JObj [(''type'', JStr ''text''), (''text'', as_text r)]])]),
                        fetched = calls, console = []\<rparr>
                   | Inl err \<Rightarrow>
                       catch_block ''Error calling tool '' nm
                         (js_prop request ''id'') ''Tool execution failed'' err calls)))"

definition handleResourceRead :: "MCPRegistryImpl \<Rightarrow> jsval \<Rightarrow> outcome" where
  "handleResourceRead registry request =
     (let params = js_prop request ''params'' in
      case js_get params ''uri'' of
        Inl e \<Rightarrow> quiet (Rejected e)
      | Inr uri \<Rightarrow>
          (case MCPRegistryImpl_handleResourceRead registry uri params of
             Inr content \<Rightarrow>
               quiet (send_result (js_prop request ''id'')
                 (JObj [(''contents'',
                    JArr [JObj [(''uri'', uri), (''mimeType'', JStr ''application/json''),
                                (''text'', as_text content)]])]))
           | Inl err \<Rightarrow>
               catch_block ''Error reading resource '' uri
                 (js_prop request ''id'') ''Resource read failed'' err []))"

definition handlePromptsGet :: "MCPRegistryImpl \<Rightarrow> jsval \<Rightarrow> outcome" where
  "handlePromptsGet registry request =
     (let params = js_prop request ''params'' in
      case js_get params ''name'' of
        Inl e \<Rightarrow> quiet (Rejected e)
      | Inr nm \<Rightarrow>
          (case MCPRegistryImpl_handlePromptGet registry nm
                  (js_or (js_prop params ''arguments'') (JObj [])) of
             Inr content \<Rightarrow>
               quiet (send_result (js_prop request ''id'')
                 (JObj [(''messages'',
                    JArr [JObj [(''role'', JStr ''user''),
                                (''content'',
                                   JObj [(''type'', JStr ''text''), (''text'', as_text content)])]])]))
           | Inl err \<Rightarrow>
               catch_block ''Error getting prompt '' nm
                 (js_prop request ''id'') ''Prompt get failed'' err []))"

definition handleNotification :: "string \<Rightarrow> jsval \<Rightarrow> outcome" where
  "handleNotification mth request =
     \<lparr>sent = StatusEnd 200,
      fetched = [],
      console =
        [if mth = ''notifications/initialized''
           then ConsoleLog ''MCP client initialized successfully'' []
         else if mth = ''notifications/cancelled''
           then ConsoleLog ''MCP request cancelled:'' [js_prop request ''params'']
         else if mth = ''notifications/progress''
           then ConsoleLog ''MCP progress update:'' [js_prop request ''params'']
         else ConsoleLog (''Unknown notification: '' @ mth) [js_prop request ''params'']]\<rparr>"

text \<open>
  The body of the \<open>try\<close> of the middleware, lines 147 to 171. A value on the left is an
  exception thrown synchronously, which the \<open>catch\<close> at line 172 receives. Reading
  \<open>method\<close> of a body that is \<open>undefined\<close> or \<open>null\<close> throws, and so does calling
  \<open>startsWith\<close> on a \<open>method\<close> that is not a string.
\<close>

definition dispatch ::
  "fetch \<Rightarrow> string option \<Rightarrow> MCPRegistryImpl \<Rightarrow> Request \<Rightarrow> outcome completion" where
  "dispatch net PORT registry req =
     (let mcpRequest = body req in
      case js_get mcpRequest ''method'' of
        Inl e \<Rightarrow> Inl e
      | Inr (JStr mth) \<Rightarrow>
          Inr (if js_startsWith mth ''notifications/'' then handleNotification mth mcpRequest
               else if mth = ''initialize'' then handleInitialize registry mcpRequest
               else if mth = ''tools/list'' then handleToolsList registry mcpRequest
               else if mth = ''tools/call'' then handleToolCall net PORT registry mcpRequest req
               else if mth = ''resources/list'' then handleResourcesList registry mcpRequest
               else if mth = ''resources/read'' then handleResourceRead registry mcpRequest
               else if mth = ''prompts/list'' then handlePromptsList registry mcpRequest
               else if mth = ''prompts/get'' then handlePromptsGet registry mcpRequest
               else quiet (sendMCPError (js_prop mcpRequest ''id'') (-32601)
                             (JStr (''Method not found: '' @ mth))))
      | Inr v \<Rightarrow> Inl (JsError ''mcpRequest.method.startsWith is not a function''))"

text \<open>
  The function that \<open>createMCPMiddleware(config)\<close> returns, applied to a request. The
  base path is read from the \<open>config\<close> given to the factory (here \<open>cfg\<close>).
\<close>

definition mcp_middleware ::
  "MCPConfig \<Rightarrow> fetch \<Rightarrow> string option \<Rightarrow> MCPRegistryImpl \<Rightarrow> Request \<Rightarrow> outcome" where
  "mcp_middleware cfg net PORT registry req =
     (let basePath = js_or (cfg_data cfg ''basePath'') (JStr ''/mcp'') in
      if JStr (req_path req) \<noteq> basePath \<or> req_method req \<noteq> ''POST'' then quiet Next
      else (case dispatch net PORT registry req of
              Inr out \<Rightarrow> out
            | Inl err \<Rightarrow>
                \<lparr>sent = sendMCPError (JNum ''0'') (-32603) (JStr ''Internal error''),
                 fetched = [],
                 console = [ConsoleError ''MCP middleware error:'' err]\<rparr>))"

definition createMCPMiddleware ::
  "MCPRegistryImpl \<Rightarrow> MCPConfig \<Rightarrow>
     MCPRegistryImpl \<times> (fetch \<Rightarrow> string option \<Rightarrow> MCPRegistryImpl \<Rightarrow> Request \<Rightarrow> outcome)" where
  "createMCPMiddleware registry cfg = (configure registry cfg, mcp_middleware cfg)"

text \<open>
  The handler table of the stored configuration, where the field \<open>resourceHandlers\<close> is
  as \<open>MCPConfig\<close> types it: absent, \<open>undefined\<close> or \<open>null\<close> (then no key is found) or a
  table.
\<close>

definition no_members :: handler_table where
  "no_members = \<lparr>own_members = Map.empty, inherited_members = Map.empty\<rparr>"

definition resourceHandlers :: "MCPRegistryImpl \<Rightarrow> handler_table option" where
  "resourceHandlers r =
     (case config r ''resourceHandlers'' of
        None \<Rightarrow> Some no_members
      | Some (CHandlers t) \<Rightarrow> Some t
      | Some (CData v) \<Rightarrow> if nullish v then Some no_members else None)"

text \<open>
  A request that passes the check of path and verb at line 142, for a middleware created
  with the configuration \<open>cfg\<close>.
\<close>

definition accepted :: "MCPConfig \<Rightarrow> Request \<Rightarrow> bool" where
  "accepted cfg req =
     (JStr (req_path req) = js_or (cfg_data cfg ''basePath'') (JStr ''/mcp'')
      \<and> req_method req = ''POST'')"

section \<open>Example data\<close>

definition tool_a :: MCPTool where
  "tool_a = \<lparr>name = ''a'', description = ''first'', inputSchema = JObj []\<rparr>"

definition tool_b :: MCPTool where
  "tool_b = \<lparr>name = ''b'', description = ''second'', inputSchema = JObj []\<rparr>"

definition route_a :: RouteDefinition where
  "route_a = \<lparr>path = ''/a'', method = ''GET'', tool = tool_a, handler = None\<rparr>"

definition route_b :: RouteDefinition where
  "route_b = \<lparr>path = ''/b'', method = ''GET'', tool = tool_b, handler = None\<rparr>"

definition route_b2 :: RouteDefinition where
  "route_b2 = \<lparr>path = ''/b'', method = ''GET'', tool = tool_a, handler = None\<rparr>"

definition registry_ab :: MCPRegistryImpl where
  "registry_ab = register (register new_registry route_a) route_b"

definition mcp_post :: "jsval \<Rightarrow> Request" where
  "mcp_post b =
     \<lparr>headers = [''host'' \<mapsto> ''example.com''], req_path = ''/mcp'', req_method = ''POST'',
      body = b\<rparr>"

definition no_network :: fetch where
  "no_network url options = Inl (JsError ''fetch failed'')"

definition call_unknown :: jsval where
  "call_unknown =
     JObj [(''jsonrpc'', JStr ''2.0''), (''id'', JNum ''7''), (''method'', JStr ''tools/call''),
           (''params'', JObj [(''name'', JStr ''X''), (''arguments'', JObj [])])]"

definition call_object_name :: jsval where
  "call_object_name =
     JObj [(''jsonrpc'', JStr ''2.0''), (''id'', JNum ''7''), (''method'', JStr ''tools/call''),
           (''params'', JObj [(''name'', JObj [(''toString'', JNum ''1'')])])]"

definition call_without_params :: jsval where
  "call_without_params =
     JObj [(''jsonrpc'', JStr ''2.0''), (''id'', JNum ''1''), (''method'', JStr ''tools/call'')]"

definition read_x :: jsval where
  "read_x =
     JObj [(''jsonrpc'', JStr ''2.0''), (''id'', JNum ''1''), (''method'', JStr ''resources/read''),
           (''params'', JObj [(''uri'', JStr ''x'')])]"


definition table_of :: "string \<Rightarrow> (jsval \<Rightarrow> jsval completion) \<Rightarrow> handler_table" where
  "table_of key h = \<lparr>own_members = [key \<mapsto> Callable h], inherited_members = Map.empty\<rparr>"

definition registry_with :: "string \<Rightarrow> (jsval \<Rightarrow> jsval completion) \<Rightarrow> MCPRegistryImpl" where
  "registry_with key h =
     configure new_registry [''resourceHandlers'' \<mapsto> CHandlers (table_of key h)]"

definition status_handler :: "jsval \<Rightarrow> jsval completion" where
  "status_handler params = Inr (JObj [(''ok'', JBool True)])"

definition failing_handler :: "jsval \<Rightarrow> jsval completion" where
  "failing_handler params = Inl (JsError ''disk unreadable'')"

definition silent_handler :: "jsval \<Rightarrow> jsval completion" where
  "silent_handler params = Inl (JsError [])"

definition count_handler :: "jsval \<Rightarrow> Request \<Rightarrow> jsval completion" where
  "count_handler args req = Inr (JObj [(''count'', JNum ''3'')])"

definition boom_handler :: "jsval \<Rightarrow> Request \<Rightarrow> jsval completion" where
  "boom_handler args req = Inl (JsError ''boom'')"

definition route_h :: RouteDefinition where
  "route_h = \<lparr>path = ''/h/:id'', method = ''GET'', tool = tool_a, handler = Some count_handler\<rparr>"

definition route_boom :: RouteDefinition where
  "route_boom = \<lparr>path = ''/h/:id'', method = ''GET'', tool = tool_a, handler = Some boom_handler\<rparr>"

definition call_a :: jsval where
  "call_a =
     JObj [(''jsonrpc'', JStr ''2.0''), (''id'', JNum ''2''), (''method'', JStr ''tools/call''),
           (''params'', JObj [(''name'', JStr ''a''), (''arguments'', JObj [(''id'', JNum ''5'')])])]"

definition route_item :: RouteDefinition where
  "route_item = \<lparr>path = ''/items/:id'', method = ''GET'', tool = tool_a, handler = None\<rparr>"

definition route_item_post :: RouteDefinition where
  "route_item_post = \<lparr>path = ''/items/:id'', method = ''POST'', tool = tool_a, handler = None\<rparr>"

definition route_user_item :: RouteDefinition where
  "route_user_item =
     \<lparr>path = ''/users/:userId/items/:id'', method = ''PUT'', tool = tool_a, handler = None\<rparr>"

definition route_item_delete :: RouteDefinition where
  "route_item_delete =
     \<lparr>path = ''/items/:id'', method = ''DELETE'', tool = tool_a, handler = None\<rparr>"

definition route_idx :: RouteDefinition where
  "route_idx = \<lparr>path = ''/items/:idx'', method = ''GET'', tool = tool_a, handler = None\<rparr>"

definition route_idx_id :: RouteDefinition where
  "route_idx_id = \<lparr>path = ''/a/:idx/:id'', method = ''GET'', tool = tool_a, handler = None\<rparr>"

definition args_42 :: jsval where
  "args_42 = JObj [(''id'', JStr ''42''), (''verbose'', JBool True)]"

definition args_widget :: jsval where
  "args_widget = JObj [(''id'', JStr ''42''), (''name'', JStr ''widget'')]"

definition args_user_widget :: jsval where
  "args_user_widget =
     JObj [(''userId'', JStr ''u1''), (''id'', JStr ''42''), (''name'', JStr ''widget'')]"

definition args_force :: jsval where
  "args_force = JObj [(''id'', JNum ''7''), (''force'', JBool True)]"

definition args_id7 :: jsval where
  "args_id7 = JObj [(''id'', JStr ''7'')]"

definition args_id_idx :: jsval where
  "args_id_idx = JObj [(''id'', JNum ''1''), (''idx'', JNum ''2'')]"

section \<open>Properties of the registry\<close>

lemma map_set_takeWhile:
  "takeWhile (\<lambda>(k', v'). k' \<noteq> k) (map_set k v m) = takeWhile (\<lambda>(k', v'). k' \<noteq> k) m"
  by (induction m) auto

lemma map_set_decomp:
  "map_set k v m =
     takeWhile (\<lambda>(k', v'). k' \<noteq> k) m @ (k, v) # tl (dropWhile (\<lambda>(k', v'). k' \<noteq> k) m)"
  by (induction m) auto

lemma map_set_idem: "map_set k v2 (map_set k v1 m) = map_set k v2 m"
  by (induction m) auto

lemma map_of_map_set: "map_of (map_set k v m) = (map_of m)(k \<mapsto> v)"
  by (induction m) (auto simp: fun_eq_iff)

lemma find_append_first:
  "\<forall>x \<in> set xs. \<not> P x \<Longrightarrow> P y \<Longrightarrow> find P (xs @ y # ys) = Some y"
  by (induction xs) auto

text \<open>
  Claim C3. In every state of the registry, after \<open>clear()\<close> the call \<open>getTools()\<close>
  returns the empty sequence and \<open>getConfig()\<close> returns the configuration stored before:
  \<open>clear\<close> removes the route definitions and changes nothing else.
\<close>

theorem clear_keeps_config:
  "getTools (clear r) = [] \<and> getConfig (clear r) = getConfig r \<and> clear r = r\<lparr>routes := []\<rparr>"
  by (simp add: getTools_def clear_def getConfig_def map_values_def)

text \<open>
  Claim C4. After \<open>register(d)\<close>, \<open>getRoute(d.tool.name)\<close> returns \<open>d\<close>, provided no route
  stored before the key of \<open>d\<close> in iteration order has the same tool name. Registering a
  second definition with the same method and path replaces the first at that route key:
  the registry is the one that the second registration alone gives. \<open>getRoute\<close> returns
  the first route in iteration order that has the tool name, and the not-found value
  exactly when no stored route has it.
\<close>

theorem register_getRoute:
  "((\<forall>e \<in> set (map_values (takeWhile (\<lambda>(k, e). k \<noteq> route_key d) (routes (register r d)))).
        name (tool e) \<noteq> name (tool d))
      \<longrightarrow> getRoute (register r d) (JStr (name (tool d))) = Some d)
   \<and> (method d2 = method d1 \<and> path d2 = path d1
        \<longrightarrow> register (register r d1) d2 = register r d2)
   \<and> map_of (routes (register r d)) (route_key d) = Some d
   \<and> ((getRoute r n = Some d') \<longleftrightarrow>
        (\<exists>i < length (routes r). map_values (routes r) ! i = d' \<and> JStr (name (tool d')) = n
            \<and> (\<forall>j < i. JStr (name (tool (map_values (routes r) ! j))) \<noteq> n)))
   \<and> ((getRoute r n = None) \<longleftrightarrow>
        (\<forall>e \<in> set (map_values (routes r)). JStr (name (tool e)) \<noteq> n))"
proof (intro conjI impI)
  assume h: "\<forall>e \<in> set (map_values (takeWhile (\<lambda>(k, e). k \<noteq> route_key d)
                 (routes (register r d)))). name (tool e) \<noteq> name (tool d)"
  let ?pre = "takeWhile (\<lambda>(k', v'). k' \<noteq> route_key d) (routes r)"
  have eq: "routes (register r d) =
      ?pre @ (route_key d, d) # tl (dropWhile (\<lambda>(k', v'). k' \<noteq> route_key d) (routes r))"
    unfolding register_def using map_set_decomp[of "route_key d" d "routes r"] by simp
  have pre: "\<forall>e \<in> set (map snd ?pre). JStr (name (tool e)) \<noteq> JStr (name (tool d))"
    using h by (simp add: register_def map_set_takeWhile map_values_def)
  show "getRoute (register r d) (JStr (name (tool d))) = Some d"
    unfolding getRoute_def map_values_def eq using pre
    by (simp add: find_append_first)
next
  assume "method d2 = method d1 \<and> path d2 = path d1"
  then have "route_key d2 = route_key d1" by (simp add: route_key_def)
  then show "register (register r d1) d2 = register r d2"
    by (simp add: register_def map_set_idem)
next
  show "map_of (routes (register r d)) (route_key d) = Some d"
    by (simp add: register_def map_of_map_set)
next
  show "(getRoute r n = Some d') \<longleftrightarrow>
        (\<exists>i < length (routes r). map_values (routes r) ! i = d' \<and> JStr (name (tool d')) = n
            \<and> (\<forall>j < i. JStr (name (tool (map_values (routes r) ! j))) \<noteq> n))"
    unfolding getRoute_def map_values_def by (auto simp: find_Some_iff)
next
  show "(getRoute r n = None) \<longleftrightarrow>
        (\<forall>e \<in> set (map_values (routes r)). JStr (name (tool e)) \<noteq> n)"
    unfolding getRoute_def by (auto simp: find_None_iff)
qed

theorem register_getRoute_witness:
  "map (\<lambda>e. name (tool e))
      (map_values (takeWhile (\<lambda>(k, e). k \<noteq> route_key route_b)
         (routes (register (register new_registry route_a) route_b)))) = [''a'']
   \<and> name (tool route_b) = ''b''
   \<and> getRoute (register (register new_registry route_a) route_b) (JStr ''b'') = Some route_b
   \<and> method route_b2 = method route_b \<and> path route_b2 = path route_b
   \<and> register (register (register new_registry route_a) route_b) route_b2
       = register (register new_registry route_a) route_b2
   \<and> getRoute (register (register new_registry route_a) route_b2) (JStr ''a'') = Some route_a
   \<and> getRoute (register (register new_registry route_a) route_b2) (JStr ''b'') = None"
  using register_getRoute[where d = route_b and r = "register new_registry route_a"
      and ?d1.0 = route_b and ?d2.0 = route_b2]
  by (simp add: register_def new_registry_def route_key_def route_a_def route_b_def
      route_b2_def tool_a_def tool_b_def map_values_def getRoute_def)

text \<open>
  Claim C5. \<open>configure\<close> merges shallowly: a key of the new configuration takes the
  new value, whatever was stored, and a key absent from it keeps the stored value. So
  after \<open>configure({a: 1})\<close> and \<open>configure({b: 2})\<close> both are stored, and
  \<open>configure({a: 3})\<close> then sets \<open>a\<close> and leaves \<open>b\<close>. A new \<open>resourceHandlers\<close> object
  replaces the stored one as a whole: the stored value is the new object, whatever the
  old one held.
\<close>

theorem configure_shallow_merge:
  "getConfig (configure r c) k = (case c k of Some v \<Rightarrow> Some v | None \<Rightarrow> getConfig r k)
   \<and> (let r1 = configure r [''a'' \<mapsto> CData (JNum ''1'')];
           r2 = configure r1 [''b'' \<mapsto> CData (JNum ''2'')];
           r3 = configure r2 [''a'' \<mapsto> CData (JNum ''3'')]
       in getConfig r2 ''a'' = Some (CData (JNum ''1''))
          \<and> getConfig r2 ''b'' = Some (CData (JNum ''2''))
          \<and> getConfig r3 ''a'' = Some (CData (JNum ''3''))
          \<and> getConfig r3 ''b'' = Some (CData (JNum ''2'')))
   \<and> getConfig (configure r (c(''resourceHandlers'' \<mapsto> CHandlers hs))) ''resourceHandlers''
       = Some (CHandlers hs)"
  by (simp add: getConfig_def configure_def map_add_def Let_def split: option.splits)

theorem configure_shallow_merge_witness:
  "getConfig (configure (configure new_registry [''a'' \<mapsto> CData (JNum ''1'')])
                [''b'' \<mapsto> CData (JNum ''2'')]) ''a'' = Some (CData (JNum ''1''))
   \<and> getConfig (configure (configure new_registry [''a'' \<mapsto> CData (JNum ''1'')])
                [''b'' \<mapsto> CData (JNum ''2'')]) ''b'' = Some (CData (JNum ''2''))"
  using configure_shallow_merge[of "configure new_registry [''a'' \<mapsto> CData (JNum ''1'')]"
      "[''b'' \<mapsto> CData (JNum ''2'')]" "''a''"]
    configure_shallow_merge[of "configure new_registry [''a'' \<mapsto> CData (JNum ''1'')]"
      "[''b'' \<mapsto> CData (JNum ''2'')]" "''b''"]
  by (simp add: getConfig_def configure_def new_registry_def)

section \<open>Properties of the dispatcher\<close>

lemmas example_defs = mcp_post_def accepted_def cfg_data_def js_or_def js_prop_def own_prop_def
  registry_ab_def register_def new_registry_def route_key_def route_a_def route_b_def
  tool_a_def tool_b_def map_values_def getTools_def

lemma mcp_middleware_accepted:
  assumes "accepted cfg req" and "js_get (body req) ''method'' = Inr (JStr mth)"
  shows "mcp_middleware cfg net PORT registry req =
     (if prefix ''notifications/'' mth then handleNotification mth (body req)
      else if mth = ''initialize'' then handleInitialize registry (body req)
      else if mth = ''tools/list'' then handleToolsList registry (body req)
      else if mth = ''tools/call'' then handleToolCall net PORT registry (body req) req
      else if mth = ''resources/list'' then handleResourcesList registry (body req)
      else if mth = ''resources/read'' then handleResourceRead registry (body req)
      else if mth = ''prompts/list'' then handlePromptsList registry (body req)
      else if mth = ''prompts/get'' then handlePromptsGet registry (body req)
      else quiet (sendMCPError (js_prop (body req) ''id'') (-32601)
                    (JStr (''Method not found: '' @ mth))))"
  using assms
  by (simp add: mcp_middleware_def accepted_def dispatch_def Let_def js_startsWith_def)

lemma sublist_prepend: "sublist x ys \<Longrightarrow> sublist x (ps @ ys)"
  unfolding sublist_def by (metis append.assoc)

lemma sublist_js_join: "x \<in> set xs \<Longrightarrow> sublist x (js_join sep xs)"
proof (induction sep xs rule: js_join.induct)
  case (1 sep)
  then show ?case by simp
next
  case (2 sep y)
  then show ?case by simp
next
  case (3 sep y z zs)
  show ?case
  proof (cases "x = y")
    case True
    then show ?thesis by (simp add: sublist_append_rightI)
  next
    case False
    with 3 have "sublist x (js_join sep (z # zs))" by simp
    then have "sublist x ((y @ sep) @ js_join sep (z # zs))"
      by (rule sublist_prepend)
    then show ?thesis by simp
  qed
qed

lemma as_text_cases:
  "as_text v = (case v of JStr s \<Rightarrow> JStr s | JUndefined \<Rightarrow> JUndefined
                | _ \<Rightarrow> JStr (json_value ''  '' [] v))"
  by (cases v) (simp_all add: as_text_def JSON_stringify_def numeral_2_eq_2)

lemma getRoute_name: "getRoute registry nm = Some rd \<Longrightarrow> nm = JStr (name (tool rd))"
  unfolding getRoute_def by (auto simp: find_Some_iff)

lemma getRoute_unconvertible: "js_String nm = Inl e \<Longrightarrow> getRoute registry nm = None"
proof (cases "getRoute registry nm")
  case None
  then show ?thesis .
next
  case (Some rd)
  assume "js_String nm = Inl e"
  with getRoute_name[OF Some] show ?thesis by simp
qed

text \<open>
  A body without a usable \<open>method\<close> makes the \<open>try\<close> of the middleware throw
  synchronously; the \<open>catch\<close> at line 172 answers with id \<open>0\<close>.
\<close>

lemma malformed_request_internal_error:
  assumes "accepted cfg req"
    and "\<And>mth. js_get (body req) ''method'' \<noteq> Inr (JStr mth)"
  shows "sent (mcp_middleware cfg net PORT registry req)
     = Json \<lparr>jsonrpc = ''2.0'', response_id = JNum ''0'', result = None,
              error = Some (-32603, JStr ''Internal error'')\<rparr>"
  using assms
  by (auto simp: mcp_middleware_def accepted_def dispatch_def Let_def sendMCPError_def
      split: sum.splits jsval.splits)

text \<open>
  Claim C1. The claim is that every accepted request that is not a notification gets
  exactly one JSON-RPC response, the top-level \<open>catch\<close> answering what nothing else
  answered. The code does not do that for \<open>tools/call\<close>, \<open>resources/read\<close> and
  \<open>prompts/get\<close> without \<open>params\<close>: the async handler destructures \<open>request.params\<close>
  before its own \<open>try\<close>, its promise is rejected, and the middleware, which returns the
  promise without awaiting it, sends nothing.
\<close>

theorem missing_params_unanswered:
  assumes "accepted cfg req"
    and "js_get (body req) ''method'' = Inr (JStr mth)"
    and "mth = ''tools/call'' \<or> mth = ''resources/read'' \<or> mth = ''prompts/get''"
    and "nullish (js_prop (body req) ''params'')"
  shows "\<exists>e. mcp_middleware cfg net PORT registry req = quiet (Rejected e)"
proof -
  have thrown: "\<exists>e. js_get (js_prop (body req) ''params'') k = Inl e" for k
    using assms(4) by (auto simp: nullish_def)
  obtain e1 where e1: "js_get (js_prop (body req) ''params'') ''name'' = Inl e1"
    using thrown by blast
  obtain e2 where e2: "js_get (js_prop (body req) ''params'') ''uri'' = Inl e2"
    using thrown by blast
  have tool: "handleToolCall net PORT registry (body req) req = quiet (Rejected e1)"
    by (simp add: handleToolCall_def Let_def e1)
  have res: "handleResourceRead registry (body req) = quiet (Rejected e2)"
    by (simp add: handleResourceRead_def Let_def e2)
  have prompt: "handlePromptsGet registry (body req) = quiet (Rejected e1)"
    by (simp add: handlePromptsGet_def Let_def e1)
  consider "mth = ''tools/call''" | "mth = ''resources/read''" | "mth = ''prompts/get''"
    using assms(3) by blast
  then show ?thesis
  proof cases
    case 1
    with assms(2) have "js_get (body req) ''method'' = Inr (JStr ''tools/call'')" by simp
    from mcp_middleware_accepted[OF assms(1) this, of net PORT registry] tool
    show ?thesis by (intro exI[of _ e1]) simp
  next
    case 2
    with assms(2) have "js_get (body req) ''method'' = Inr (JStr ''resources/read'')" by simp
    from mcp_middleware_accepted[OF assms(1) this, of net PORT registry] res
    show ?thesis by (intro exI[of _ e2]) simp
  next
    case 3
    with assms(2) have "js_get (body req) ''method'' = Inr (JStr ''prompts/get'')" by simp
    from mcp_middleware_accepted[OF assms(1) this, of net PORT registry] prompt
    show ?thesis by (intro exI[of _ e1]) simp
  qed
qed

theorem missing_params_unanswered_witness:
  "mcp_middleware Map.empty no_network None registry_ab (mcp_post call_without_params)
     = quiet (Rejected (JsError ''Cannot read properties of undefined (reading name)''))"
proof -
  have 1: "accepted Map.empty (mcp_post call_without_params)"
    by (simp add: example_defs)
  have 2: "js_get (body (mcp_post call_without_params)) ''method'' = Inr (JStr ''tools/call'')"
    by (simp add: example_defs call_without_params_def)
  have 3: "''tools/call'' = ''tools/call'' \<or> ''tools/call'' = ''resources/read''
           \<or> ''tools/call'' = ''prompts/get''"
    by simp
  have 4: "nullish (js_prop (body (mcp_post call_without_params)) ''params'')"
    by (simp add: example_defs call_without_params_def nullish_def)
  from missing_params_unanswered[OF 1 2 3 4, of no_network None registry_ab]
  obtain e where e: "mcp_middleware Map.empty no_network None registry_ab
      (mcp_post call_without_params) = quiet (Rejected e)"
    by blast
  have "mcp_middleware Map.empty no_network None registry_ab (mcp_post call_without_params)
      = handleToolCall no_network None registry_ab (body (mcp_post call_without_params))
          (mcp_post call_without_params)"
    using mcp_middleware_accepted[OF 1 2] by simp
  also have "\<dots> = quiet (Rejected (JsError ''Cannot read properties of undefined (reading name)''))"
    by (simp add: handleToolCall_def Let_def example_defs call_without_params_def)
  finally show ?thesis using e by simp
qed

text \<open>
  Claim C6. A \<open>tools/call\<close> whose \<open>params.name\<close> matches the tool name of no stored
  route is to be answered with the error code \<open>-32602\<close> and a message that lists the
  registered tools. The code does so where the name can be converted to a string
  (\<open>unknown_tool_answer\<close> below), but not for a name such as \<open>{toString: 1}\<close>: the
  template literal of the message throws, the one of the log line in the catch block
  throws again, the promise is rejected and nothing is sent.
\<close>

theorem unconvertible_name_unanswered:
  assumes "accepted cfg req"
    and "js_get (body req) ''method'' = Inr (JStr ''tools/call'')"
    and "js_get (js_prop (body req) ''params'') ''name'' = Inr nm"
    and "js_String nm = Inl e"
  shows "mcp_middleware cfg net PORT registry req
     = \<lparr>sent = Rejected e, fetched = [], console = []\<rparr>"
proof -
  have mw: "mcp_middleware cfg net PORT registry req
      = handleToolCall net PORT registry (body req) req"
    using mcp_middleware_accepted[OF assms(1,2)] by simp
  have none: "getRoute registry nm = None"
    by (rule getRoute_unconvertible[OF assms(4)])
  show ?thesis
    unfolding mw using assms(3,4) none
    by (simp add: handleToolCall_def Let_def catch_block_def)
qed

theorem unconvertible_name_unanswered_witness:
  "mcp_middleware Map.empty no_network None registry_ab (mcp_post call_object_name)
     = \<lparr>sent = Rejected (JsError ''Cannot convert object to primitive value''),
        fetched = [], console = []\<rparr>"
proof -
  have 1: "accepted Map.empty (mcp_post call_object_name)"
    by (simp add: example_defs)
  have 2: "js_get (body (mcp_post call_object_name)) ''method'' = Inr (JStr ''tools/call'')"
    by (simp add: example_defs call_object_name_def)
  have 3: "js_get (js_prop (body (mcp_post call_object_name)) ''params'') ''name''
             = Inr (JObj [(''toString'', JNum ''1'')])"
    by (simp add: example_defs call_object_name_def)
  have 4: "js_String (JObj [(''toString'', JNum ''1'')])
             = Inl (JsError ''Cannot convert object to primitive value'')"
    by simp
  from unconvertible_name_unanswered[OF 1 2 3 4, of no_network None registry_ab]
  show ?thesis .
qed

text \<open>
  Where the name can be converted, the answer to an unknown tool is the error
  \<open>-32602\<close>, and its message ends with the names of all registered tools joined by a
  comma and a space.
\<close>

lemma unknown_tool_answer:
  assumes "accepted cfg req"
    and "js_get (body req) ''method'' = Inr (JStr ''tools/call'')"
    and "js_get (js_prop (body req) ''params'') ''name'' = Inr nm"
    and "js_String nm = Inr s"
    and "\<forall>d \<in> set (map_values (routes registry)). JStr (name (tool d)) \<noteq> nm"
  shows "mcp_middleware cfg net PORT registry req
       = \<lparr>sent = Json \<lparr>jsonrpc = ''2.0'', response_id = js_prop (body req) ''id'',
                        result = None,
                        error = Some (-32602,
                          JStr (''Unknown tool: '' @ s @ ''. Available tools: ''
                                @ js_join '', '' (map name (getTools registry))))\<rparr>,
          fetched = [], console = []\<rparr>
     \<and> (\<forall>t \<in> set (getTools registry).
           sublist (name t) (''Unknown tool: '' @ s @ ''. Available tools: ''
                             @ js_join '', '' (map name (getTools registry))))"
proof -
  have none: "getRoute registry nm = None"
    using assms(5) by (simp add: getRoute_def find_None_iff)
  have mw: "mcp_middleware cfg net PORT registry req
      = handleToolCall net PORT registry (body req) req"
    using mcp_middleware_accepted[OF assms(1,2)] by simp
  have out: "handleToolCall net PORT registry (body req) req
       = \<lparr>sent = Json \<lparr>jsonrpc = ''2.0'', response_id = js_prop (body req) ''id'',
                        result = None,
                        error = Some (-32602,
                          JStr (''Unknown tool: '' @ s @ ''. Available tools: ''
                                @ js_join '', '' (map name (getTools registry))))\<rparr>,
          fetched = [], console = []\<rparr>"
    using assms(3,4) none
    by (simp add: handleToolCall_def Let_def quiet_def sendMCPError_def)
  have names: "\<forall>t \<in> set (getTools registry).
      sublist (name t) (''Unknown tool: '' @ s @ ''. Available tools: ''
                    @ js_join '', '' (map name (getTools registry)))"
  proof
    fix t assume "t \<in> set (getTools registry)"
    then have "sublist (name t) (js_join '', '' (map name (getTools registry)))"
      by (intro sublist_js_join) simp
    then have "sublist (name t) ((''Unknown tool: '' @ s @ ''. Available tools: '')
                    @ js_join '', '' (map name (getTools registry)))"
      by (rule sublist_prepend)
    then show "sublist (name t) (''Unknown tool: '' @ s @ ''. Available tools: ''
                    @ js_join '', '' (map name (getTools registry)))"
      by simp
  qed
  show ?thesis unfolding mw out using names by simp
qed

lemma unknown_tool_example:
  "mcp_middleware Map.empty no_network None registry_ab (mcp_post call_unknown)
     = \<lparr>sent = Json \<lparr>jsonrpc = ''2.0'', response_id = JNum ''7'', result = None,
                      error = Some (-32602, JStr ''Unknown tool: X. Available tools: a, b'')\<rparr>,
        fetched = [], console = []\<rparr>"
proof -
  have 1: "accepted Map.empty (mcp_post call_unknown)"
    by (simp add: example_defs)
  have 2: "js_get (body (mcp_post call_unknown)) ''method'' = Inr (JStr ''tools/call'')"
    by (simp add: example_defs call_unknown_def)
  have 3: "js_get (js_prop (body (mcp_post call_unknown)) ''params'') ''name'' = Inr (JStr ''X'')"
    by (simp add: example_defs call_unknown_def)
  have 4: "js_String (JStr ''X'') = Inr ''X''" by simp
  have 5: "\<forall>d \<in> set (map_values (routes registry_ab)). JStr (name (tool d)) \<noteq> JStr ''X''"
    by (simp add: example_defs)
  from unknown_tool_answer[OF 1 2 3 4 5, of no_network None] show ?thesis
    by (simp add: example_defs call_unknown_def)
qed



lemma text_status: "as_text (JObj [(''ok'', JBool True)])
    = JStr (''{'' @ [CHR 0x0A] @ ''  '' @ [CHR 0x22] @ ''ok'' @ [CHR 0x22] @ '': true''
            @ [CHR 0x0A] @ ''}'')"
  by code_simp

lemma text_count: "as_text (JObj [(''count'', JNum ''3'')])
    = JStr (''{'' @ [CHR 0x0A] @ ''  '' @ [CHR 0x22] @ ''count'' @ [CHR 0x22] @ '': 3''
            @ [CHR 0x0A] @ ''}'')"
  by code_simp

lemma read_x_facts:
  "accepted Map.empty (mcp_post read_x)"
  "js_get (body (mcp_post read_x)) ''method'' = Inr (JStr ''resources/read'')"
  "js_get (js_prop (body (mcp_post read_x)) ''params'') ''uri'' = Inr (JStr ''x'')"
  "js_prop (body (mcp_post read_x)) ''id'' = JNum ''1''"
  "js_prop (body (mcp_post read_x)) ''params'' = JObj [(''uri'', JStr ''x'')]"
  by (simp_all add: example_defs read_x_def)

lemma registry_with_table: "resourceHandlers (registry_with key h) = Some (table_of key h)"
  by (simp add: resourceHandlers_def registry_with_def configure_def new_registry_def)

lemma table_of_get:
  "table_get (table_of key h) k = (if k = key then Some (Callable h) else None)"
  by (simp add: table_get_def table_of_def)

text \<open>
  Claim C7, as the code has it. A \<open>resources/read\<close> whose uri can be converted to a
  string and names no property of the configured \<open>resourceHandlers\<close> object, neither
  an own entry nor a member it inherits, is answered with the error code \<open>-32603\<close> and
  the message \<open>No handler for resource: <uri>\<close>, with a capital N. Where the uri names a
  handler and the handler resolves, its result is returned in the contents envelope and
  no error is produced. Where the handler rejects with an \<open>Error\<close>, the answer is
  \<open>-32603\<close> with the message of that error, or with \<open>Resource read failed\<close> where the
  message is empty.
\<close>

theorem resource_read_outcome:
  assumes "accepted cfg req"
    and "js_get (body req) ''method'' = Inr (JStr ''resources/read'')"
    and "js_get (js_prop (body req) ''params'') ''uri'' = Inr uri"
    and "js_String uri = Inr key"
    and "resourceHandlers registry = Some table"
  shows "(table_get table key = None \<longrightarrow>
            mcp_middleware cfg net PORT registry req
              = \<lparr>sent = Json \<lparr>jsonrpc = ''2.0'', response_id = js_prop (body req) ''id'',
                               result = None,
                               error = Some (-32603,
                                             JStr (''No handler for resource: '' @ key))\<rparr>,
                 fetched = [],
                 console = [ConsoleError (''Error reading resource '' @ key @ '':'')
                              (JsError (''No handler for resource: '' @ key))]\<rparr>)
     \<and> (table_get table key = Some (Callable h)
          \<and> h (js_prop (body req) ''params'') = Inr content \<longrightarrow>
            mcp_middleware cfg net PORT registry req
              = \<lparr>sent = Json \<lparr>jsonrpc = ''2.0'', response_id = js_prop (body req) ''id'',
                               result = Some (JObj [(''contents'',
                                 JArr [JObj [(''uri'', uri),
                                             (''mimeType'', JStr ''application/json''),
                                             (''text'',
                                              (case content of
                                                 JStr s \<Rightarrow> JStr s
                                               | JUndefined \<Rightarrow> JUndefined
                                               | _ \<Rightarrow> JStr (json_value ''  '' [] content)))]])]),
                               error = None\<rparr>,
                 fetched = [], console = []\<rparr>)
     \<and> (table_get table key = Some (Callable h)
          \<and> h (js_prop (body req) ''params'') = Inl (JsError m) \<longrightarrow>
            mcp_middleware cfg net PORT registry req
              = \<lparr>sent = Json \<lparr>jsonrpc = ''2.0'', response_id = js_prop (body req) ''id'',
                               result = None,
                               error = Some (-32603,
                                 JStr (if m = [] then ''Resource read failed'' else m))\<rparr>,
                 fetched = [],
                 console = [ConsoleError (''Error reading resource '' @ key @ '':'')
                              (JsError m)]\<rparr>)"
proof -
  have mw: "mcp_middleware cfg net PORT registry req = handleResourceRead registry (body req)"
    using mcp_middleware_accepted[OF assms(1,2)] by simp
  have defined: "js_prop (body req) ''params'' \<noteq> JUndefined"
    using assms(3) by auto
  have lookup: "MCPRegistryImpl_handleResourceRead registry uri (js_prop (body req) ''params'')
      = (case table_get table key of
           Some (Callable f) \<Rightarrow> f (js_prop (body req) ''params'')
         | Some NotCallable \<Rightarrow> Inl (JsError ''handler is not a function'')
         | Some Falsy \<Rightarrow> Inl (JsError (''No handler for resource: '' @ key))
         | None \<Rightarrow> Inl (JsError (''No handler for resource: '' @ key)))"
    using assms(4,5) defined
    by (auto simp: MCPRegistryImpl_handleResourceRead_def call_handler_def resourceHandlers_def
        no_handler_def no_members_def table_get_def
        split: option.splits cfg_value.splits if_splits member.splits)
  show ?thesis
  proof (intro conjI impI)
    assume "table_get table key = None"
    then show "mcp_middleware cfg net PORT registry req
              = \<lparr>sent = Json \<lparr>jsonrpc = ''2.0'', response_id = js_prop (body req) ''id'',
                               result = None,
                               error = Some (-32603,
                                             JStr (''No handler for resource: '' @ key))\<rparr>,
                 fetched = [],
                 console = [ConsoleError (''Error reading resource '' @ key @ '':'')
                              (JsError (''No handler for resource: '' @ key))]\<rparr>"
      unfolding mw using assms(3,4) lookup
      by (simp add: handleResourceRead_def Let_def catch_block_def js_or_def sendMCPError_def)
  next
    assume "table_get table key = Some (Callable h)
          \<and> h (js_prop (body req) ''params'') = Inr content"
    then show "mcp_middleware cfg net PORT registry req
              = \<lparr>sent = Json \<lparr>jsonrpc = ''2.0'', response_id = js_prop (body req) ''id'',
                               result = Some (JObj [(''contents'',
                                 JArr [JObj [(''uri'', uri),
                                             (''mimeType'', JStr ''application/json''),
                                             (''text'',
                                              (case content of
                                                 JStr s \<Rightarrow> JStr s
                                               | JUndefined \<Rightarrow> JUndefined
                                               | _ \<Rightarrow> JStr (json_value ''  '' [] content)))]])]),
                               error = None\<rparr>,
                 fetched = [], console = []\<rparr>"
      unfolding mw using assms(3) lookup
      by (simp add: handleResourceRead_def Let_def quiet_def send_result_def
          as_text_cases[symmetric])
  next
    assume "table_get table key = Some (Callable h)
          \<and> h (js_prop (body req) ''params'') = Inl (JsError m)"
    then show "mcp_middleware cfg net PORT registry req
              = \<lparr>sent = Json \<lparr>jsonrpc = ''2.0'', response_id = js_prop (body req) ''id'',
                               result = None,
                               error = Some (-32603,
                                 JStr (if m = [] then ''Resource read failed'' else m))\<rparr>,
                 fetched = [],
                 console = [ConsoleError (''Error reading resource '' @ key @ '':'')
                              (JsError m)]\<rparr>"
      unfolding mw using assms(3,4) lookup
      by (simp add: handleResourceRead_def Let_def catch_block_def js_or_def sendMCPError_def)
  qed
qed

theorem resource_read_outcome_witness:
  "mcp_middleware Map.empty no_network None (registry_with ''y'' status_handler) (mcp_post read_x)
     = \<lparr>sent = Json \<lparr>jsonrpc = ''2.0'', response_id = JNum ''1'', result = None,
                      error = Some (-32603, JStr ''No handler for resource: x'')\<rparr>,
        fetched = [],
        console = [ConsoleError ''Error reading resource x:''
                     (JsError ''No handler for resource: x'')]\<rparr>
   \<and> mcp_middleware Map.empty no_network None (registry_with ''x'' status_handler) (mcp_post read_x)
     = \<lparr>sent = Json \<lparr>jsonrpc = ''2.0'', response_id = JNum ''1'',
                      result = Some (JObj [(''contents'',
                        JArr [JObj [(''uri'', JStr ''x''),
                                    (''mimeType'', JStr ''application/json''),
                                    (''text'',
                                     JStr (''{'' @ [CHR 0x0A] @ ''  '' @ [CHR 0x22] @ ''ok''
                                           @ [CHR 0x22] @ '': true'' @ [CHR 0x0A] @ ''}''))]])]),
                      error = None\<rparr>,
        fetched = [], console = []\<rparr>
   \<and> sent (mcp_middleware Map.empty no_network None (registry_with ''x'' failing_handler)
             (mcp_post read_x))
     = Json \<lparr>jsonrpc = ''2.0'', response_id = JNum ''1'', result = None,
              error = Some (-32603, JStr ''disk unreadable'')\<rparr>
   \<and> sent (mcp_middleware Map.empty no_network None (registry_with ''x'' silent_handler)
             (mcp_post read_x))
     = Json \<lparr>jsonrpc = ''2.0'', response_id = JNum ''1'', result = None,
              error = Some (-32603, JStr ''Resource read failed'')\<rparr>"
proof -
  have k: "js_String (JStr ''x'') = Inr ''x''" by simp
  note r = resource_read_outcome[OF read_x_facts(1,2,3) k registry_with_table,
      where net = no_network and PORT = None]
  have a: "table_get (table_of ''y'' status_handler) ''x'' = None"
    by (simp add: table_of_get)
  have b: "table_get (table_of ''x'' h) ''x'' = Some (Callable h)" for h
    by (simp add: table_of_get)
  have 1: "mcp_middleware Map.empty no_network None (registry_with ''y'' status_handler)
             (mcp_post read_x)
     = \<lparr>sent = Json \<lparr>jsonrpc = ''2.0'', response_id = JNum ''1'', result = None,
                      error = Some (-32603, JStr ''No handler for resource: x'')\<rparr>,
        fetched = [],
        console = [ConsoleError ''Error reading resource x:''
                     (JsError ''No handler for resource: x'')]\<rparr>"
    using r[of "''y''" status_handler] a by (simp add: read_x_facts)
  have 2: "mcp_middleware Map.empty no_network None (registry_with ''x'' status_handler)
             (mcp_post read_x)
     = \<lparr>sent = Json \<lparr>jsonrpc = ''2.0'', response_id = JNum ''1'',
                      result = Some (JObj [(''contents'',
                        JArr [JObj [(''uri'', JStr ''x''),
                                    (''mimeType'', JStr ''application/json''),
                                    (''text'', as_text (JObj [(''ok'', JBool True)]))]])]),
                      error = None\<rparr>,
        fetched = [], console = []\<rparr>"
    using r[of "''x''" status_handler status_handler "JObj [(''ok'', JBool True)]"] b
    by (simp add: read_x_facts status_handler_def as_text_cases)
  have 3: "sent (mcp_middleware Map.empty no_network None (registry_with ''x'' failing_handler)
             (mcp_post read_x))
     = Json \<lparr>jsonrpc = ''2.0'', response_id = JNum ''1'', result = None,
              error = Some (-32603, JStr ''disk unreadable'')\<rparr>"
    using r[of "''x''" failing_handler failing_handler _ "''disk unreadable''"] b
    by (simp add: read_x_facts failing_handler_def)
  have 4: "sent (mcp_middleware Map.empty no_network None (registry_with ''x'' silent_handler)
             (mcp_post read_x))
     = Json \<lparr>jsonrpc = ''2.0'', response_id = JNum ''1'', result = None,
              error = Some (-32603, JStr ''Resource read failed'')\<rparr>"
    using r[of "''x''" silent_handler silent_handler _ "[]"] b
    by (simp add: read_x_facts silent_handler_def)
  show ?thesis unfolding 1 2 3 4 text_status by simp
qed

text \<open>
  The claim C7 as the specification words it, with the message
  \<open>no handler for resource: <uri>\<close> in lower case, fails for the uri \<open>x\<close> and a
  configuration without handlers.
\<close>

theorem resource_read_message_counterexample:
  "mcp_middleware Map.empty no_network None new_registry (mcp_post read_x)
     = \<lparr>sent = Json \<lparr>jsonrpc = ''2.0'', response_id = JNum ''1'', result = None,
                      error = Some (-32603, JStr ''No handler for resource: x'')\<rparr>,
        fetched = [],
        console = [ConsoleError ''Error reading resource x:''
                     (JsError ''No handler for resource: x'')]\<rparr>
   \<and> sent (mcp_middleware Map.empty no_network None new_registry (mcp_post read_x))
     \<noteq> Json \<lparr>jsonrpc = ''2.0'', response_id = JNum ''1'', result = None,
               error = Some (-32603, JStr ''no handler for resource: x'')\<rparr>"
  by (simp add: mcp_middleware_def dispatch_def Let_def js_startsWith_def example_defs read_x_def
      handleResourceRead_def MCPRegistryImpl_handleResourceRead_def call_handler_def
      no_handler_def catch_block_def sendMCPError_def)

lemma call_a_facts:
  "accepted Map.empty (mcp_post call_a)"
  "js_get (body (mcp_post call_a)) ''method'' = Inr (JStr ''tools/call'')"
  "js_get (js_prop (body (mcp_post call_a)) ''params'') ''name'' = Inr (JStr ''a'')"
  "js_prop (body (mcp_post call_a)) ''id'' = JNum ''2''"
  "js_prop (js_prop (body (mcp_post call_a)) ''params'') ''arguments''
     = JObj [(''id'', JNum ''5'')]"
  by (simp_all add: example_defs call_a_def)

text \<open>
  Claim C9, as the code has it. A \<open>tools/call\<close> on a tool whose route definition has a
  custom handler makes no outbound HTTP call, and its outcome is the same for any two
  behaviours of the network. Where the handler resolves, the response carries its result
  in the content envelope, as it is when it is a string and as JSON text indented by
  two otherwise. Where the handler rejects with an \<open>Error\<close>, the response is the error
  \<open>-32603\<close> with the message of that error, or with \<open>Tool execution failed\<close> where the
  message is empty.
\<close>

theorem custom_handler_no_network:
  assumes "accepted cfg req"
    and "js_get (body req) ''method'' = Inr (JStr ''tools/call'')"
    and "js_get (js_prop (body req) ''params'') ''name'' = Inr nm"
    and "getRoute registry nm = Some routeDefinition"
    and "handler routeDefinition = Some h"
  shows "fetched (mcp_middleware cfg net PORT registry req) = []
     \<and> mcp_middleware cfg net PORT registry req = mcp_middleware cfg net' PORT' registry req
     \<and> (h (js_prop (js_prop (body req) ''params'') ''arguments'') req = Inr r
        \<longrightarrow> mcp_middleware cfg net PORT registry req
             = \<lparr>sent = Json \<lparr>jsonrpc = ''2.0'', response_id = js_prop (body req) ''id'',
                              result = Some (JObj [(''content'',
                                JArr [JObj [(''type'', JStr ''text''),
                                            (''text'',
                                             (case r of
                                                JStr s \<Rightarrow> JStr s
                                              | JUndefined \<Rightarrow> JUndefined
                                              | _ \<Rightarrow> JStr (json_value ''  '' [] r)))]])]),
                              error = None\<rparr>,
                fetched = [], console = []\<rparr>)
     \<and> (h (js_prop (js_prop (body req) ''params'') ''arguments'') req = Inl (JsError m)
        \<longrightarrow> mcp_middleware cfg net PORT registry req
             = \<lparr>sent = Json \<lparr>jsonrpc = ''2.0'', response_id = js_prop (body req) ''id'',
                              result = None,
                              error = Some (-32603,
                                JStr (if m = [] then ''Tool execution failed'' else m))\<rparr>,
                fetched = [],
                console = [ConsoleError
                             (''Error calling tool '' @ name (tool routeDefinition) @ '':'')
                             (JsError m)]\<rparr>)"
proof -
  have mw: "\<And>n P. mcp_middleware cfg n P registry req = handleToolCall n P registry (body req) req"
    using mcp_middleware_accepted[OF assms(1,2)] by simp
  have nm: "nm = JStr (name (tool routeDefinition))"
    by (rule getRoute_name[OF assms(4)])
  have ind: "\<And>n P. handleToolCall n P registry (body req) req =
     (case h (js_prop (js_prop (body req) ''params'') ''arguments'') req of
        Inr r \<Rightarrow>
          \<lparr>sent = send_result (js_prop (body req) ''id'')
                    (JObj [(''content'',
                       JArr [JObj [(''type'', JStr ''text''), (''text'', as_text r)]])]),
           fetched = [], console = []\<rparr>
      | Inl err \<Rightarrow> catch_block ''Error calling tool '' nm
                         (js_prop (body req) ''id'') ''Tool execution failed'' err [])"
    using assms(3,4,5) by (simp add: handleToolCall_def Let_def split: sum.splits)
  show ?thesis
  proof (intro conjI impI)
    show "fetched (mcp_middleware cfg net PORT registry req) = []"
      unfolding mw ind by (simp add: catch_block_def nm split: sum.splits)
    show "mcp_middleware cfg net PORT registry req = mcp_middleware cfg net' PORT' registry req"
      unfolding mw ind ..
  next
    assume "h (js_prop (js_prop (body req) ''params'') ''arguments'') req = Inr r"
    then show "mcp_middleware cfg net PORT registry req
             = \<lparr>sent = Json \<lparr>jsonrpc = ''2.0'', response_id = js_prop (body req) ''id'',
                              result = Some (JObj [(''content'',
                                JArr [JObj [(''type'', JStr ''text''),
                                            (''text'',
                                             (case r of
                                                JStr s \<Rightarrow> JStr s
                                              | JUndefined \<Rightarrow> JUndefined
                                              | _ \<Rightarrow> JStr (json_value ''  '' [] r)))]])]),
                              error = None\<rparr>,
                fetched = [], console = []\<rparr>"
      unfolding mw ind by (simp add: send_result_def as_text_cases[symmetric])
  next
    assume "h (js_prop (js_prop (body req) ''params'') ''arguments'') req = Inl (JsError m)"
    then show "mcp_middleware cfg net PORT registry req
             = \<lparr>sent = Json \<lparr>jsonrpc = ''2.0'', response_id = js_prop (body req) ''id'',
                              result = None,
                              error = Some (-32603,
                                JStr (if m = [] then ''Tool execution failed'' else m))\<rparr>,
                fetched = [],
                console = [ConsoleError
                             (''Error calling tool '' @ name (tool routeDefinition) @ '':'')
                             (JsError m)]\<rparr>"
      unfolding mw ind by (simp add: catch_block_def nm js_or_def sendMCPError_def)
  qed
qed

theorem custom_handler_no_network_witness:
  "handler route_h = Some count_handler
   \<and> mcp_middleware Map.empty no_network None (register new_registry route_h) (mcp_post call_a)
     = \<lparr>sent = Json \<lparr>jsonrpc = ''2.0'', response_id = JNum ''2'',
                      result = Some (JObj [(''content'',
                        JArr [JObj [(''type'', JStr ''text''),
                                    (''text'',
                                     JStr (''{'' @ [CHR 0x0A] @ ''  '' @ [CHR 0x22] @ ''count''
                                           @ [CHR 0x22] @ '': 3'' @ [CHR 0x0A] @ ''}''))]])]),
                      error = None\<rparr>,
        fetched = [], console = []\<rparr>"
proof -
  have 4: "getRoute (register new_registry route_h) (JStr ''a'') = Some route_h"
    by (simp add: example_defs getRoute_def route_h_def)
  have 5: "handler route_h = Some count_handler"
    by (simp add: route_h_def)
  have 6: "count_handler (js_prop (js_prop (body (mcp_post call_a)) ''params'') ''arguments'')
             (mcp_post call_a) = Inr (JObj [(''count'', JNum ''3'')])"
    by (simp add: count_handler_def)
  from custom_handler_no_network[OF call_a_facts(1,2,3) 4 5,
      where r = "JObj [(''count'', JNum ''3'')]" and net = no_network and PORT = None] 6
  have "mcp_middleware Map.empty no_network None (register new_registry route_h) (mcp_post call_a)
     = \<lparr>sent = Json \<lparr>jsonrpc = ''2.0'', response_id = JNum ''2'',
                      result = Some (JObj [(''content'',
                        JArr [JObj [(''type'', JStr ''text''),
                                    (''text'', as_text (JObj [(''count'', JNum ''3'')]))]])]),
                      error = None\<rparr>,
        fetched = [], console = []\<rparr>"
    by (simp add: call_a_facts as_text_cases)
  then show ?thesis unfolding text_count using 5 by simp
qed

text \<open>
  The claim C9 as stated, that the result is the handler's result for every call on a
  tool with a custom handler, fails for a handler that rejects: the response then has no
  result but the error \<open>-32603\<close>.
\<close>

theorem rejecting_handler_counterexample:
  "handler route_boom = Some boom_handler
   \<and> getRoute (register new_registry route_boom) (JStr ''a'') = Some route_boom
   \<and> mcp_middleware Map.empty no_network None (register new_registry route_boom)
        (mcp_post call_a)
     = \<lparr>sent = Json \<lparr>jsonrpc = ''2.0'', response_id = JNum ''2'', result = None,
                      error = Some (-32603, JStr ''boom'')\<rparr>,
        fetched = [],
        console = [ConsoleError ''Error calling tool a:'' (JsError ''boom'')]\<rparr>"
  by (simp add: mcp_middleware_def dispatch_def Let_def js_startsWith_def example_defs call_a_def
      handleToolCall_def getRoute_def route_boom_def boom_handler_def catch_block_def
      sendMCPError_def)

section \<open>Properties of the REST bridge\<close>

lemma index_of_None: "index_of pat s = None \<longleftrightarrow> \<not> sublist pat s"
  by (induction s) (simp_all add: sublist_Cons_right)

lemma js_includes_sublist: "js_includes s pat \<longleftrightarrow> sublist pat s"
  by (simp add: js_includes_def index_of_None)

lemma foldl_js_delete: "foldl js_delete obj ks = filter (\<lambda>(k, v). k \<notin> set ks) obj"
proof (induction ks arbitrary: obj)
  case Nil
  then show ?case by simp
next
  case (Cons k ks)
  have "filter (\<lambda>(k', v). k' \<notin> set ks) (js_delete obj k)
      = filter (\<lambda>(k', v). k' \<notin> set (k # ks)) obj"
    unfolding js_delete_def by (induction obj) auto
  with Cons.IH[of "js_delete obj k"] show ?case by simp
qed

lemma falsy_no_entries: "\<not> truthy data \<Longrightarrow> js_entries data = []"
  by (cases data) simp_all

lemma content_type_set:
  "(''Content-Type'', ''application/json'') \<in> set (request_headers req)"
  by (simp add: request_headers_def)

lemma colon_not_word: "\<not> word_char CHR '':''"
  by (simp add: word_char_def)

lemma path_params_sound:
  "nm \<in> set (path_params p) \<Longrightarrow>
     \<exists>pre post. p = pre @ '':'' @ nm @ post \<and> nm \<noteq> [] \<and> list_all word_char nm
        \<and> (post = [] \<or> \<not> word_char (hd post))"
proof (induction p rule: path_params.induct)
  case 1
  then show ?case by simp
next
  case (2 c cs)
  show ?case
  proof (cases "c = CHR '':'' \<and> takeWhile word_char cs \<noteq> []")
    case True
    with "2.prems" have
      "nm = takeWhile word_char cs \<or> nm \<in> set (path_params (dropWhile word_char cs))"
      by simp
    then show ?thesis
    proof
      assume nm: "nm = takeWhile word_char cs"
      have w: "list_all word_char nm"
        unfolding nm list_all_iff using set_takeWhileD by fastforce
      have p: "c # cs = [] @ '':'' @ nm @ dropWhile word_char cs"
        using True nm by simp
      have e: "dropWhile word_char cs = [] \<or> \<not> word_char (hd (dropWhile word_char cs))"
        using hd_dropWhile[of word_char cs] by blast
      from p w e True nm show ?thesis by blast
    next
      assume "nm \<in> set (path_params (dropWhile word_char cs))"
      with "2.IH"(1) True obtain pre post where
        ih: "dropWhile word_char cs = pre @ '':'' @ nm @ post" "nm \<noteq> []"
            "list_all word_char nm" "post = [] \<or> \<not> word_char (hd post)"
        by blast
      have "c # cs = (c # takeWhile word_char cs) @ dropWhile word_char cs" by simp
      then have "c # cs = (c # takeWhile word_char cs @ pre) @ '':'' @ nm @ post"
        unfolding ih(1) by simp
      with ih(2,3,4) show ?thesis by blast
    qed
  next
    case False
    with "2.prems" have "nm \<in> set (path_params cs)" by auto
    with "2.IH"(2) False obtain pre post where
      ih: "cs = pre @ '':'' @ nm @ post" "nm \<noteq> []"
          "list_all word_char nm" "post = [] \<or> \<not> word_char (hd post)"
      by blast
    have "c # cs = (c # pre) @ '':'' @ nm @ post" unfolding ih(1) by simp
    with ih(2,3,4) show ?thesis by blast
  qed
qed

lemma takeWhile_whole_word:
  assumes "list_all word_char nm" and "post = [] \<or> \<not> word_char (hd post)"
  shows "takeWhile word_char (nm @ post) = nm"
proof -
  have "takeWhile word_char post = []"
    using assms(2) by (cases post) auto
  moreover have "\<forall>x \<in> set nm. word_char x"
    using assms(1) by (simp add: list_all_iff)
  ultimately show ?thesis by (simp add: takeWhile_append2)
qed

lemma dropWhile_before_colon:
  "dropWhile word_char (xs @ CHR '':'' # ys) = dropWhile word_char xs @ CHR '':'' # ys"
  by (induction xs) (simp_all add: colon_not_word)

lemma path_params_complete:
  assumes "nm \<noteq> []" and "list_all word_char nm" and "post = [] \<or> \<not> word_char (hd post)"
  shows "nm \<in> set (path_params (pre @ CHR '':'' # nm @ post))"
proof (induction "pre @ CHR '':'' # nm @ post" arbitrary: pre rule: path_params.induct)
  case 1
  then show ?case by simp
next
  case (2 c cs)
  show ?case
  proof (cases pre)
    case Nil
    with "2.hyps"(3) have c: "c = CHR '':''" and cs: "cs = nm @ post" by simp_all
    have "takeWhile word_char cs = nm"
      unfolding cs by (rule takeWhile_whole_word[OF assms(2,3)])
    with c assms(1) have "path_params (c # cs) = nm # path_params (dropWhile word_char cs)"
      by simp
    then have "nm \<in> set (path_params (c # cs))" by simp
    then show ?thesis unfolding "2.hyps"(3) .
  next
    case (Cons d pre')
    with "2.hyps"(3) have cs: "cs = pre' @ CHR '':'' # nm @ post" by simp
    show ?thesis
    proof (cases "c = CHR '':'' \<and> takeWhile word_char cs \<noteq> []")
      case True
      have dw: "dropWhile word_char cs = dropWhile word_char pre' @ CHR '':'' # nm @ post"
        unfolding cs by (rule dropWhile_before_colon)
      have "nm \<in> set (path_params (dropWhile word_char cs))"
        unfolding dw by (rule "2.hyps"(1)[OF True dw])
      with True have "nm \<in> set (path_params (c # cs))" by simp
      then show ?thesis unfolding "2.hyps"(3) .
    next
      case False
      have "nm \<in> set (path_params cs)"
        unfolding cs by (rule "2.hyps"(2)[OF False cs])
      with False have "nm \<in> set (path_params (c # cs))" by auto
      then show ?thesis unfolding "2.hyps"(3) .
    qed
  qed
qed

lemma path_params_iff:
  "nm \<in> set (path_params p) \<longleftrightarrow>
     (\<exists>pre post. p = pre @ '':'' @ nm @ post \<and> nm \<noteq> [] \<and> list_all word_char nm
        \<and> (post = [] \<or> \<not> word_char (hd post)))"
proof
  assume "nm \<in> set (path_params p)"
  then show "\<exists>pre post. p = pre @ '':'' @ nm @ post \<and> nm \<noteq> [] \<and> list_all word_char nm
        \<and> (post = [] \<or> \<not> word_char (hd post))"
    by (rule path_params_sound)
next
  assume "\<exists>pre post. p = pre @ '':'' @ nm @ post \<and> nm \<noteq> [] \<and> list_all word_char nm
        \<and> (post = [] \<or> \<not> word_char (hd post))"
  then obtain pre post where p: "p = pre @ '':'' @ nm @ post" and "nm \<noteq> []"
    and "list_all word_char nm" and "post = [] \<or> \<not> word_char (hd post)" by blast
  from path_params_complete[OF this(2,3,4), of pre] show "nm \<in> set (path_params p)"
    unfolding p by simp
qed

lemma placeholder_occurs: "nm \<in> set (path_params p) \<Longrightarrow> sublist ('':'' @ nm) p"
proof -
  assume "nm \<in> set (path_params p)"
  from path_params_sound[OF this] obtain pre post where "p = pre @ '':'' @ nm @ post"
    by blast
  then show ?thesis unfolding sublist_def by (intro exI[of _ pre] exI[of _ post]) simp
qed

lemma own_prop_in_entries:
  assumes "k \<in> set (js_keys data)"
  shows "own_prop (js_entries data) k \<in> snd ` set (js_entries data)"
proof -
  from assms have "k \<in> fst ` set (js_entries data)" by (simp add: js_keys_def)
  then obtain v where v: "map_of (js_entries data) k = Some v"
    by (cases "map_of (js_entries data) k") (auto simp: map_of_eq_None_iff)
  from map_of_SomeD[OF v] have "v \<in> snd ` set (js_entries data)" by force
  with v show ?thesis by (simp add: own_prop_def)
qed

lemma replace_parameters_ok:
  assumes "\<forall>k \<in> set keys. \<exists>s. js_String (own_prop (js_entries data) k) = Inr s"
  shows "\<exists>substituted. replace_parameters data keys p = Inr substituted"
  using assms
proof (induction keys arbitrary: p)
  case Nil
  then show ?case by simp
next
  case (Cons k keys)
  then obtain s where s: "js_String (own_prop (js_entries data) k) = Inr s" by auto
  from Cons.prems have "\<forall>k \<in> set keys. \<exists>s. js_String (own_prop (js_entries data) k) = Inr s"
    by simp
  from Cons.IH[OF this, of "js_replace p ('':'' @ k) s"] show ?case by (simp add: s)
qed

lemma finalPath_ok:
  assumes "\<forall>v \<in> snd ` set (js_entries data). \<exists>s. js_String v = Inr s"
  shows "\<exists>substituted. finalPath pth data = Inr substituted"
proof (cases "truthy data \<and> js_typeof data = ''object''")
  case True
  have "\<forall>k \<in> set (js_keys data). \<exists>s. js_String (own_prop (js_entries data) k) = Inr s"
    using assms own_prop_in_entries by blast
  from replace_parameters_ok[OF this, of pth] True show ?thesis
    by (simp add: finalPath_def)
next
  case False
  then show ?thesis by (auto simp: finalPath_def)
qed

lemma append_entries_ok:
  assumes "\<forall>v \<in> snd ` set es. \<exists>s. js_String v = Inr s"
  shows "\<exists>ps. append_entries pth es = Inr ps
          \<and> map (\<lambda>(k, s). (k, Inr s)) ps
              = map (\<lambda>(k, v). (k, js_String v))
                  (filter (\<lambda>(k, v). \<not> nullish v \<and> \<not> sublist ('':'' @ k) pth) es)"
  using assms
proof (induction es)
  case Nil
  then show ?case by simp
next
  case (Cons kv es)
  obtain k v where kv: "kv = (k, v)" by (cases kv)
  from Cons.prems obtain s where s: "js_String v = Inr s" unfolding kv by auto
  from Cons.prems have "\<forall>v \<in> snd ` set es. \<exists>s. js_String v = Inr s" by simp
  from Cons.IH[OF this] obtain ps where ps: "append_entries pth es = Inr ps"
    "map (\<lambda>(k, s). (k, Inr s)) ps
       = map (\<lambda>(k, v). (k, js_String v))
           (filter (\<lambda>(k, v). \<not> nullish v \<and> \<not> sublist ('':'' @ k) pth) es)"
    by blast
  show ?case
  proof (cases "\<not> nullish v \<and> \<not> sublist ('':'' @ k) pth")
    case True
    then have "append_entries pth (kv # es) = Inr ((k, s) # ps)"
      unfolding kv by (simp add: nullish_def js_includes_sublist s ps(1))
    moreover have "map (\<lambda>(k, s). (k, Inr s)) ((k, s) # ps)
       = map (\<lambda>(k, v). (k, js_String v))
           (filter (\<lambda>(k, v). \<not> nullish v \<and> \<not> sublist ('':'' @ k) pth) (kv # es))"
      unfolding kv using True ps(2) s by simp
    ultimately show ?thesis by blast
  next
    case False
    then have "append_entries pth (kv # es) = Inr ps"
      unfolding kv by (auto simp: nullish_def js_includes_sublist ps(1))
    moreover have "map (\<lambda>(k, s). (k, Inr s)) ps
       = map (\<lambda>(k, v). (k, js_String v))
           (filter (\<lambda>(k, v). \<not> nullish v \<and> \<not> sublist ('':'' @ k) pth) (kv # es))"
      unfolding kv using False ps(2) by auto
    ultimately show ?thesis by blast
  qed
qed

lemma filter_by_placeholders:
  assumes "\<forall>k \<in> set (js_keys data). sublist ('':'' @ k) pth \<longrightarrow> k \<in> set (path_params pth)"
  shows "filter (\<lambda>(k, v). \<not> nullish v \<and> \<not> sublist ('':'' @ k) pth) (js_entries data)
       = filter (\<lambda>(k, v). \<not> nullish v \<and> k \<notin> set (path_params pth)) (js_entries data)"
proof (rule filter_cong[OF refl])
  fix kv assume "kv \<in> set (js_entries data)"
  then have "fst kv \<in> set (js_keys data)" by (simp add: js_keys_def)
  with assms have "sublist ('':'' @ fst kv) pth \<longleftrightarrow> fst kv \<in> set (path_params pth)"
    using placeholder_occurs by blast
  then show "(case kv of (k, v) \<Rightarrow> \<not> nullish v \<and> \<not> sublist ('':'' @ k) pth)
           = (case kv of (k, v) \<Rightarrow> \<not> nullish v \<and> k \<notin> set (path_params pth))"
    by (cases kv) simp
qed

lemma js_join_empty:
  "\<forall>x \<in> set xs. x \<noteq> [] \<Longrightarrow> js_join sep xs = [] \<longleftrightarrow> xs = []"
  by (induction sep xs rule: js_join.induct) simp_all

lemma query_empty: "URLSearchParams_toString ps = [] \<longleftrightarrow> ps = []"
proof -
  have "\<forall>x \<in> set (map (\<lambda>(k, v). urlencode k @ ''='' @ urlencode v) ps). x \<noteq> []"
    by auto
  from js_join_empty[OF this, of "''&''"] show ?thesis
    by (simp add: URLSearchParams_toString_def)
qed

text \<open>The requests of the examples, computed.\<close>

lemma eval_get_42:
  "fetch_arguments None (mcp_post JNull) route_item args_42
     = Inr (''http://example.com/items/42?verbose=true'',
            \<lparr>init_method = ''GET'',
             init_headers = [(''Content-Type'', ''application/json''),
                             (''User-Agent'', ''MCP-Client/1.0'')],
             init_body = None\<rparr>)"
  by code_simp

lemma eval_post_widget:
  "fetch_arguments None (mcp_post JNull) route_item_post args_widget
     = Inr (''http://example.com/items/42'',
            \<lparr>init_method = ''POST'',
             init_headers = [(''Content-Type'', ''application/json''),
                             (''User-Agent'', ''MCP-Client/1.0'')],
             init_body = Some (''{'' @ [CHR 0x22] @ ''name'' @ [CHR 0x22] @ '':''
                               @ [CHR 0x22] @ ''widget'' @ [CHR 0x22] @ ''}'')\<rparr>)"
  by code_simp

lemma eval_put_user_widget:
  "fetch_arguments None (mcp_post JNull) route_user_item args_user_widget
     = Inr (''http://example.com/users/u1/items/42'',
            \<lparr>init_method = ''PUT'',
             init_headers = [(''Content-Type'', ''application/json''),
                             (''User-Agent'', ''MCP-Client/1.0'')],
             init_body = Some (''{'' @ [CHR 0x22] @ ''name'' @ [CHR 0x22] @ '':''
                               @ [CHR 0x22] @ ''widget'' @ [CHR 0x22] @ ''}'')\<rparr>)"
  by code_simp

lemma eval_delete_force:
  "fetch_arguments None (mcp_post JNull) route_item_delete args_force
     = Inr (''http://example.com/items/7'',
            \<lparr>init_method = ''DELETE'',
             init_headers = [(''Content-Type'', ''application/json''),
                             (''User-Agent'', ''MCP-Client/1.0'')],
             init_body = None\<rparr>)"
  by code_simp

lemma eval_idx:
  "fetch_arguments None (mcp_post JNull) route_idx args_id7
     = Inr (''http://example.com/items/7x'',
            \<lparr>init_method = ''GET'',
             init_headers = [(''Content-Type'', ''application/json''),
                             (''User-Agent'', ''MCP-Client/1.0'')],
             init_body = None\<rparr>)"
  by code_simp

lemma eval_idx_id:
  "fetch_arguments None (mcp_post JNull) route_idx_id args_id_idx
     = Inr (''http://example.com/a/1x/:id'',
            \<lparr>init_method = ''GET'',
             init_headers = [(''Content-Type'', ''application/json''),
                             (''User-Agent'', ''MCP-Client/1.0'')],
             init_body = None\<rparr>)"
  by code_simp

text \<open>
  Claim C2, as the code has it. For a bridged call whose argument values can all be
  converted to strings, the verb of the route decides where the arguments go. For
  \<open>GET\<close> alone, and provided the text \<open>:key\<close> of a supplied key occurs in the path
  template only where the key is one of its placeholders, every argument that is neither
  \<open>undefined\<close> nor \<open>null\<close> and whose key is not a placeholder becomes a query parameter,
  appended after \<open>&\<close> where the URL already contains \<open>?\<close> and after \<open>?\<close> otherwise, and
  no body is sent. For \<open>POST\<close>, \<open>PUT\<close> and \<open>PATCH\<close> the URL gets no query and the body is
  the JSON text of the arguments without the keys that are placeholders. For any other
  verb there is neither query nor body. \<open>Content-Type: application/json\<close> is set in every
  case. A placeholder is a non-empty run of letters, digits and underscores that follows a
  colon in the template and is not continued by such a character.
\<close>

theorem argument_placement:
  assumes "\<forall>v \<in> snd ` set (js_entries data). \<exists>s. js_String v = Inr s"
  shows "\<exists>substituted.
      finalPath (path rd) data = Inr substituted
    \<and> (method rd = ''GET''
        \<and> (\<forall>k \<in> set (js_keys data).
              sublist ('':'' @ k) (path rd) \<longrightarrow> k \<in> set (path_params (path rd)))
        \<longrightarrow> (\<exists>ps.
              map (\<lambda>(k, s). (k, Inr s)) ps
                = map (\<lambda>(k, v). (k, js_String v))
                    (filter (\<lambda>(k, v). \<not> nullish v \<and> k \<notin> set (path_params (path rd)))
                       (js_entries data))
            \<and> fetch_arguments PORT req rd data
                = Inr (if ps = [] then baseURL PORT req @ substituted
                       else baseURL PORT req @ substituted
                            @ (if sublist ''?'' (baseURL PORT req @ substituted)
                               then ''&'' else ''?'')
                            @ URLSearchParams_toString ps,
                       \<lparr>init_method = ''GET'', init_headers = request_headers req,
                        init_body = None\<rparr>)))
    \<and> (method rd = ''POST'' \<or> method rd = ''PUT'' \<or> method rd = ''PATCH''
        \<longrightarrow> fetch_arguments PORT req rd data
              = Inr (baseURL PORT req @ substituted,
                     \<lparr>init_method = method rd, init_headers = request_headers req,
                      init_body = Some (json_value [] []
                        (JObj (filter (\<lambda>(k, v). k \<notin> set (path_params (path rd)))
                                 (js_entries data))))\<rparr>))
    \<and> (method rd \<noteq> ''GET'' \<and> method rd \<noteq> ''POST'' \<and> method rd \<noteq> ''PUT''
        \<and> method rd \<noteq> ''PATCH''
        \<longrightarrow> fetch_arguments PORT req rd data
              = Inr (baseURL PORT req @ substituted,
                     \<lparr>init_method = method rd, init_headers = request_headers req,
                      init_body = None\<rparr>))
    \<and> (''Content-Type'', ''application/json'') \<in> set (request_headers req)
    \<and> (\<forall>nm. nm \<in> set (path_params (path rd)) \<longleftrightarrow>
          (\<exists>pre post. path rd = pre @ '':'' @ nm @ post \<and> nm \<noteq> []
             \<and> list_all word_char nm \<and> (post = [] \<or> \<not> word_char (hd post))))"
proof -
  from finalPath_ok[OF assms, of "path rd"] obtain substituted where
    fp: "finalPath (path rd) data = Inr substituted" by blast
  let ?url = "baseURL PORT req @ substituted"
  have get: "\<exists>ps.
              map (\<lambda>(k, s). (k, Inr s)) ps
                = map (\<lambda>(k, v). (k, js_String v))
                    (filter (\<lambda>(k, v). \<not> nullish v \<and> k \<notin> set (path_params (path rd)))
                       (js_entries data))
            \<and> fetch_arguments PORT req rd data
                = Inr (if ps = [] then baseURL PORT req @ substituted
                       else baseURL PORT req @ substituted
                            @ (if sublist ''?'' (baseURL PORT req @ substituted)
                               then ''&'' else ''?'')
                            @ URLSearchParams_toString ps,
                       \<lparr>init_method = ''GET'', init_headers = request_headers req,
                        init_body = None\<rparr>)"
    if m: "method rd = ''GET''"
      and c: "\<forall>k \<in> set (js_keys data).
                sublist ('':'' @ k) (path rd) \<longrightarrow> k \<in> set (path_params (path rd))"
  proof -
    from append_entries_ok[OF assms, of "path rd"] obtain ps where
      ps: "append_entries (path rd) (js_entries data) = Inr ps"
      and sp: "map (\<lambda>(k, s). (k, Inr s)) ps
              = map (\<lambda>(k, v). (k, js_String v))
                  (filter (\<lambda>(k, v). \<not> nullish v \<and> \<not> sublist ('':'' @ k) (path rd))
                     (js_entries data))"
      by blast
    have sp': "map (\<lambda>(k, s). (k, Inr s)) ps
              = map (\<lambda>(k, v). (k, js_String v))
                  (filter (\<lambda>(k, v). \<not> nullish v \<and> k \<notin> set (path_params (path rd)))
                     (js_entries data))"
      using sp unfolding filter_by_placeholders[OF c] .
    have fa: "fetch_arguments PORT req rd data
                = Inr (if ps = [] then baseURL PORT req @ substituted
                       else baseURL PORT req @ substituted
                            @ (if sublist ''?'' (baseURL PORT req @ substituted)
                               then ''&'' else ''?'')
                            @ URLSearchParams_toString ps,
                       \<lparr>init_method = ''GET'', init_headers = request_headers req,
                        init_body = None\<rparr>)"
    proof (cases "truthy data")
      case True
      then show ?thesis
        using m fp ps
        by (simp add: fetch_arguments_def Let_def queryParams_def js_includes_sublist
            query_empty)
    next
      case False
      then have "js_entries data = []" by (rule falsy_no_entries)
      with ps have "ps = []" by simp
      then show ?thesis
        using m fp False by (simp add: fetch_arguments_def Let_def)
    qed
    from sp' fa show ?thesis by blast
  qed
  have post: "fetch_arguments PORT req rd data
              = Inr (?url,
                     \<lparr>init_method = method rd, init_headers = request_headers req,
                      init_body = Some (json_value [] []
                        (JObj (filter (\<lambda>(k, v). k \<notin> set (path_params (path rd)))
                                 (js_entries data))))\<rparr>)"
    if "method rd = ''POST'' \<or> method rd = ''PUT'' \<or> method rd = ''PATCH''"
    using that fp
    by (auto simp: fetch_arguments_def Let_def bodyData_def foldl_js_delete JSON_stringify_def)
  have other: "fetch_arguments PORT req rd data
              = Inr (?url,
                     \<lparr>init_method = method rd, init_headers = request_headers req,
                      init_body = None\<rparr>)"
    if "method rd \<noteq> ''GET'' \<and> method rd \<noteq> ''POST'' \<and> method rd \<noteq> ''PUT''
        \<and> method rd \<noteq> ''PATCH''"
    using that fp by (simp add: fetch_arguments_def Let_def)
  have ct: "(''Content-Type'', ''application/json'') \<in> set (request_headers req)"
    by (rule content_type_set)
  have pp: "\<forall>nm. nm \<in> set (path_params (path rd)) \<longleftrightarrow>
          (\<exists>pre post. path rd = pre @ '':'' @ nm @ post \<and> nm \<noteq> []
             \<and> list_all word_char nm \<and> (post = [] \<or> \<not> word_char (hd post)))"
    by (intro allI path_params_iff)
  show ?thesis
  proof (intro exI[of _ substituted] conjI impI)
    show "finalPath (path rd) data = Inr substituted" by (rule fp)
  next
    assume "method rd = ''GET''
        \<and> (\<forall>k \<in> set (js_keys data).
              sublist ('':'' @ k) (path rd) \<longrightarrow> k \<in> set (path_params (path rd)))"
    then have m: "method rd = ''GET''"
      and c: "\<forall>k \<in> set (js_keys data).
                sublist ('':'' @ k) (path rd) \<longrightarrow> k \<in> set (path_params (path rd))"
      by blast+
    show "\<exists>ps.
              map (\<lambda>(k, s). (k, Inr s)) ps
                = map (\<lambda>(k, v). (k, js_String v))
                    (filter (\<lambda>(k, v). \<not> nullish v \<and> k \<notin> set (path_params (path rd)))
                       (js_entries data))
            \<and> fetch_arguments PORT req rd data
                = Inr (if ps = [] then baseURL PORT req @ substituted
                       else baseURL PORT req @ substituted
                            @ (if sublist ''?'' (baseURL PORT req @ substituted)
                               then ''&'' else ''?'')
                            @ URLSearchParams_toString ps,
                       \<lparr>init_method = ''GET'', init_headers = request_headers req,
                        init_body = None\<rparr>)"
      by (rule get[OF m c])
  next
    assume "method rd = ''POST'' \<or> method rd = ''PUT'' \<or> method rd = ''PATCH''"
    then show "fetch_arguments PORT req rd data
              = Inr (baseURL PORT req @ substituted,
                     \<lparr>init_method = method rd, init_headers = request_headers req,
                      init_body = Some (json_value [] []
                        (JObj (filter (\<lambda>(k, v). k \<notin> set (path_params (path rd)))
                                 (js_entries data))))\<rparr>)"
      by (rule post)
  next
    assume "method rd \<noteq> ''GET'' \<and> method rd \<noteq> ''POST'' \<and> method rd \<noteq> ''PUT''
        \<and> method rd \<noteq> ''PATCH''"
    then show "fetch_arguments PORT req rd data
              = Inr (baseURL PORT req @ substituted,
                     \<lparr>init_method = method rd, init_headers = request_headers req,
                      init_body = None\<rparr>)"
      by (rule other)
  next
    show "(''Content-Type'', ''application/json'') \<in> set (request_headers req)" by (rule ct)
  next
    show "\<forall>nm. nm \<in> set (path_params (path rd)) \<longleftrightarrow>
          (\<exists>pre post. path rd = pre @ '':'' @ nm @ post \<and> nm \<noteq> []
             \<and> list_all word_char nm \<and> (post = [] \<or> \<not> word_char (hd post)))"
      by (rule pp)
  qed
qed

theorem argument_placement_witness:
  "fetch_arguments None (mcp_post JNull) route_item args_42
     = Inr (''http://example.com/items/42?verbose=true'',
            \<lparr>init_method = ''GET'',
             init_headers = [(''Content-Type'', ''application/json''),
                             (''User-Agent'', ''MCP-Client/1.0'')],
             init_body = None\<rparr>)
   \<and> fetch_arguments None (mcp_post JNull) route_user_item args_user_widget
     = Inr (''http://example.com/users/u1/items/42'',
            \<lparr>init_method = ''PUT'',
             init_headers = [(''Content-Type'', ''application/json''),
                             (''User-Agent'', ''MCP-Client/1.0'')],
             init_body = Some (''{'' @ [CHR 0x22] @ ''name'' @ [CHR 0x22] @ '':''
                               @ [CHR 0x22] @ ''widget'' @ [CHR 0x22] @ ''}'')\<rparr>)
   \<and> path_params (path route_user_item) = [''userId'', ''id'']"
proof -
  have conv: "\<forall>v \<in> snd ` set (js_entries args_user_widget). \<exists>s. js_String v = Inr s"
    by (simp add: args_user_widget_def)
  have m: "method route_user_item = ''POST'' \<or> method route_user_item = ''PUT''
           \<or> method route_user_item = ''PATCH''"
    by (simp add: route_user_item_def)
  from argument_placement[OF conv, of route_user_item None "mcp_post JNull"] m
  obtain substituted where
    "fetch_arguments None (mcp_post JNull) route_user_item args_user_widget
       = Inr (baseURL None (mcp_post JNull) @ substituted,
              \<lparr>init_method = method route_user_item,
               init_headers = request_headers (mcp_post JNull),
               init_body = Some (json_value [] []
                 (JObj (filter (\<lambda>(k, v). k \<notin> set (path_params (path route_user_item)))
                          (js_entries args_user_widget))))\<rparr>)"
    by blast
  moreover have "path_params (path route_user_item) = [''userId'', ''id'']" by code_simp
  ultimately show ?thesis using eval_get_42 eval_put_user_widget by simp
qed

text \<open>
  The claim C2 as the specification words it fails for a verb that bears no body and is
  not \<open>GET\<close>: the arguments of a \<open>DELETE\<close> route are not appended to the URL.
\<close>

theorem delete_arguments_counterexample:
  "method route_item_delete = ''DELETE''
   \<and> js_entries args_force = [(''id'', JNum ''7''), (''force'', JBool True)]
   \<and> path_params (path route_item_delete) = [''id'']
   \<and> fetch_arguments None (mcp_post JNull) route_item_delete args_force
     = Inr (''http://example.com/items/7'',
            \<lparr>init_method = ''DELETE'',
             init_headers = [(''Content-Type'', ''application/json''),
                             (''User-Agent'', ''MCP-Client/1.0'')],
             init_body = None\<rparr>)"
proof -
  have "method route_item_delete = ''DELETE''" by (simp add: route_item_delete_def)
  moreover have "js_entries args_force = [(''id'', JNum ''7''), (''force'', JBool True)]"
    by (simp add: args_force_def)
  moreover have "path_params (path route_item_delete) = [''id'']" by code_simp
  ultimately show ?thesis using eval_delete_force by simp
qed

text \<open>
  Claim C10. A placeholder \<open>:name\<close> for which the arguments supply no key \<open>name\<close> is to
  stay in the outbound URL as it is. The code replaces the text \<open>:key\<close> wherever it
  first occurs, also inside a longer placeholder: for the template \<open>/items/:idx\<close> and the
  arguments \<open>{id: "7"}\<close> no key \<open>idx\<close> is supplied, and yet the request goes to
  \<open>/items/7x\<close>; for \<open>/a/:idx/:id\<close> with both keys supplied it goes to \<open>/a/1x/:id\<close>.
\<close>

theorem prefix_key_collision:
  "path_params (path route_idx) = [''idx'']
   \<and> js_keys args_id7 = [''id'']
   \<and> fetch_arguments None (mcp_post JNull) route_idx args_id7
     = Inr (''http://example.com/items/7x'',
            \<lparr>init_method = ''GET'',
             init_headers = [(''Content-Type'', ''application/json''),
                             (''User-Agent'', ''MCP-Client/1.0'')],
             init_body = None\<rparr>)
   \<and> path_params (path route_idx_id) = [''idx'', ''id'']
   \<and> js_keys args_id_idx = [''id'', ''idx'']
   \<and> fetch_arguments None (mcp_post JNull) route_idx_id args_id_idx
     = Inr (''http://example.com/a/1x/:id'',
            \<lparr>init_method = ''GET'',
             init_headers = [(''Content-Type'', ''application/json''),
                             (''User-Agent'', ''MCP-Client/1.0'')],
             init_body = None\<rparr>)"
proof -
  have "path_params (path route_idx) = [''idx'']" by code_simp
  moreover have "js_keys args_id7 = [''id'']" by (simp add: args_id7_def js_keys_def)
  moreover have "path_params (path route_idx_id) = [''idx'', ''id'']" by code_simp
  moreover have "js_keys args_id_idx = [''id'', ''idx'']"
    by (simp add: args_id_idx_def js_keys_def)
  ultimately show ?thesis using eval_idx eval_idx_id by simp
qed

theorem prefix_key_collision_witness:
  "map_sum id fst (fetch_arguments None (mcp_post JNull) route_idx args_id7)
     = Inr ''http://example.com/items/7x''
   \<and> map_sum id fst (fetch_arguments None (mcp_post JNull) route_idx_id args_id_idx)
     = Inr ''http://example.com/a/1x/:id''"
  using prefix_key_collision by simp

end
